theory Spec2Isabelle
  imports Complex_Main "HOL-Library.AList" "HOL-Library.Sublist" "HOL-Library.Multiset"
begin

section \<open>Values, dictionaries and errors\<close>

text \<open>
  The services of \<^verbatim>\<open>backend/services\<close> work on loosely typed dictionaries
  (\<^verbatim>\<open>Dict[str, Any]\<close>). A value is \<^verbatim>\<open>None\<close>, a string, a number or a nested
  dictionary. Python floats are idealised as real numbers throughout (no rounding); an
  \<^verbatim>\<open>int\<close> and a \<^verbatim>\<open>float\<close> of equal value compare and hash equal in Python, so
  one constructor carries both. A dictionary is an association list in insertion order.
\<close>

datatype val = VNone | VStr string | VNum real | VDict "(string \<times> val) list"

type_synonym pydict = "(string \<times> val) list"

datatype error = KeyError | TypeError | AttributeError | CollaboratorError

text \<open>\<^verbatim>\<open>d.get(k, default)\<close> and \<^verbatim>\<open>d.get(k)\<close> for a string key.\<close>

definition py_get :: "pydict \<Rightarrow> string \<Rightarrow> val \<Rightarrow> val" where
  "py_get d k dflt = (case map_of d k of None \<Rightarrow> dflt | Some v \<Rightarrow> v)"

text \<open>\<^verbatim>\<open>d[k] = v\<close>: an existing key keeps its position, a new key goes last.\<close>

definition py_set :: "pydict \<Rightarrow> string \<Rightarrow> val \<Rightarrow> pydict" where
  "py_set d k v = AList.update k v d"

text \<open>Truth value of an object, as \<^verbatim>\<open>if x:\<close> and \<^verbatim>\<open>x and y\<close> test it.\<close>

fun truthy :: "val \<Rightarrow> bool" where
  "truthy VNone = False"
| "truthy (VStr s) = (s \<noteq> [])"
| "truthy (VNum x) = (x \<noteq> 0)"
| "truthy (VDict d) = (d \<noteq> [])"

text \<open>
  A lookup table keyed by arbitrary hashable values. Looking up (or storing under) a
  dictionary raises \<^verbatim>\<open>TypeError: unhashable type\<close>.
\<close>

fun hashable :: "val \<Rightarrow> bool" where
  "hashable (VDict d) = False"
| "hashable v = True"

definition table_get :: "(val \<times> 'a) list \<Rightarrow> val \<Rightarrow> 'a \<Rightarrow> error + 'a" where
  "table_get t k dflt =
     (if \<not> hashable k then Inl TypeError
      else Inr (case map_of t k of None \<Rightarrow> dflt | Some v \<Rightarrow> v))"

text \<open>\<^verbatim>\<open>xs[:k]\<close>: a negative bound counts from the end.\<close>

definition py_slice_to :: "'a list \<Rightarrow> int \<Rightarrow> 'a list" where
  "py_slice_to xs k =
     (if 0 \<le> k then take (nat k) xs else take (length xs - nat (- k)) xs)"

section \<open>Feature boosters (recommendation\_service.py)\<close>

text \<open>\<^verbatim>\<open>self.category_weights\<close>, set in \<^verbatim>\<open>__init__\<close>.\<close>

definition category_weights :: "(val \<times> real) list" where
  "category_weights =
     [(VStr ''technology'', 1.0), (VStr ''business'', 1.0), (VStr ''health'', 1.0),
      (VStr ''science'', 1.0), (VStr ''general'', 0.8), (VStr ''sports'', 0.7),
      (VStr ''entertainment'', 0.6)]"

text \<open>\<^verbatim>\<open>_calculate_category_boost\<close>.\<close>

definition calculate_category_boost :: "val \<Rightarrow> (val \<times> real) list \<Rightarrow> error + real" where
  "calculate_category_boost article_category category_preferences =
     (case table_get category_weights article_category 0.5 of
        Inl e \<Rightarrow> Inl e
      | Inr base_weight \<Rightarrow>
          (case table_get category_preferences article_category 0.5 of
             Inl e \<Rightarrow> Inl e
           | Inr user_preference \<Rightarrow> Inr (base_weight * user_preference)))"

text \<open>\<^verbatim>\<open>_calculate_source_boost\<close>.\<close>

definition calculate_source_boost :: "val \<Rightarrow> (val \<times> real) list \<Rightarrow> error + real" where
  "calculate_source_boost article_source source_preferences =
     table_get source_preferences article_source 0.5"

text \<open>
  Dates. \<^verbatim>\<open>datetime.fromisoformat\<close> is the standard library's parser; it is a parameter
  of the model. It yields nothing (\<^verbatim>\<open>ValueError\<close>), a naive datetime, or an aware one
  (the text carried a UTC offset); either is given as seconds on the UTC time line.
  \<^verbatim>\<open>datetime.utcnow()\<close> is naive, and Python refuses to subtract an aware datetime
  from a naive one (\<^verbatim>\<open>TypeError\<close>).
\<close>

datatype datetime = Naive real | Aware real

record clock =
  utcnow :: real
  fromisoformat :: "string \<Rightarrow> datetime option"

text \<open>\<^verbatim>\<open>s.replace('Z', '+00:00')\<close>: every occurrence is replaced.\<close>

definition replace_Z :: "string \<Rightarrow> string" where
  "replace_Z s = concat (map (\<lambda>c. if c = CHR ''Z'' then ''+00:00'' else [c]) s)"

text \<open>The \<^verbatim>\<open>if\<close>/\<open>elif\<close> chain of \<^verbatim>\<open>_calculate_recency_boost\<close> on the age in hours.\<close>

definition recency_steps :: "real \<Rightarrow> real" where
  "recency_steps hours_old =
     (if hours_old \<le> 1 then 1.0
      else if hours_old \<le> 6 then 0.8
      else if hours_old \<le> 24 then 0.6
      else if hours_old \<le> 72 then 0.4
      else 0.2)"

text \<open>
  \<^verbatim>\<open>_calculate_recency_boost\<close>. The whole body sits in \<^verbatim>\<open>try: ... except: return 0.5\<close>,
  so a value without \<^verbatim>\<open>replace\<close> (AttributeError), a text that does not parse
  (ValueError) and the naive-minus-aware subtraction (TypeError) all give 0.5.
\<close>

fun calculate_recency_boost :: "clock \<Rightarrow> val \<Rightarrow> real" where
  "calculate_recency_boost clk (VStr published_at) =
     (case fromisoformat clk (replace_Z published_at) of
        None \<Rightarrow> 0.5
      | Some (Aware t) \<Rightarrow> 0.5
      | Some (Naive pub_time) \<Rightarrow>
          recency_steps ((utcnow clk - pub_time) / 3600))"
| "calculate_recency_boost clk v = 0.5"

text \<open>\<^verbatim>\<open>_calculate_diversity_penalty\<close>.\<close>

definition calculate_diversity_penalty :: "pydict \<Rightarrow> pydict list \<Rightarrow> real" where
  "calculate_diversity_penalty article existing_recommendations =
     (if existing_recommendations = [] then 1.0
      else
        let article_category = py_get article ''category'' (VStr []);
            article_source = py_get article ''source'' (VStr []);
            similar_category_count =
              sum_list (map (\<lambda>rec. 1::nat)
                (filter (\<lambda>rec. py_get rec ''category'' VNone = article_category)
                   existing_recommendations));
            similar_source_count =
              sum_list (map (\<lambda>rec. 1::nat)
                (filter (\<lambda>rec. py_get rec ''source'' VNone = article_source)
                   existing_recommendations));
            category_penalty = max 0.5 (1.0 - (real similar_category_count * 0.1));
            source_penalty = max 0.5 (1.0 - (real similar_source_count * 0.15))
        in min category_penalty source_penalty)"

section \<open>Preference profile\<close>

text \<open>\<^verbatim>\<open>counts[k] = counts.get(k, 0) + 1\<close> and \<^verbatim>\<open>counts[k] += 1\<close> on a defaultdict.\<close>

definition bump_count :: "(val \<times> int) list \<Rightarrow> val \<Rightarrow> (val \<times> int) list" where
  "bump_count counts k =
     AList.update k ((case map_of counts k of None \<Rightarrow> 0 | Some c \<Rightarrow> c) + 1) counts"

text \<open>
  \<^verbatim>\<open>SupabaseClient.get_user_category_preferences\<close> (models/database.py). The outcome of
  the query (\<^verbatim>\<open>result.data or []\<close>, or the exception of the client) is the input of the
  model. The loop raises when the joined article is not a dictionary or the category
  is unhashable; the method catches every exception and returns \<^verbatim>\<open>{}\<close>.
\<close>

fun count_categories :: "(val \<times> int) list \<Rightarrow> pydict list \<Rightarrow> error + (val \<times> int) list" where
  "count_categories category_counts [] = Inr category_counts"
| "count_categories category_counts (interaction # rest) =
     (let news_articles = py_get interaction ''news_articles'' VNone in
      if \<not> truthy news_articles then count_categories category_counts rest
      else case news_articles of
        VDict d \<Rightarrow>
          (let category = py_get d ''category'' VNone in
           if \<not> truthy category then count_categories category_counts rest
           else if \<not> hashable category then Inl TypeError
           else count_categories (bump_count category_counts category) rest)
      | _ \<Rightarrow> Inl AttributeError)"

definition db_get_user_category_preferences :: "error + pydict list \<Rightarrow> (val \<times> int) list" where
  "db_get_user_category_preferences query_result =
     (case query_result of
        Inl e \<Rightarrow> []
      | Inr data \<Rightarrow>
          (case count_categories [] data of Inl e \<Rightarrow> [] | Inr category_counts \<Rightarrow> category_counts))"

text \<open>The cold-start table of \<^verbatim>\<open>_get_user_category_preferences\<close>.\<close>

definition default_preferences :: "(val \<times> real) list" where
  "default_preferences =
     [(VStr ''technology'', 0.8), (VStr ''business'', 0.7), (VStr ''general'', 0.6),
      (VStr ''health'', 0.5), (VStr ''science'', 0.5)]"

text \<open>
  \<^verbatim>\<open>RecommendationService._get_user_category_preferences\<close>. Its input is the outcome of
  \<^verbatim>\<open>await self.db.get_user_category_preferences(user_id)\<close>: the counts, or an exception.
  A zero total raises ZeroDivisionError inside the \<^verbatim>\<open>try\<close>; the handler returns
  \<^verbatim>\<open>{}\<close> for every exception.
\<close>

definition get_user_category_preferences :: "error + (val \<times> int) list \<Rightarrow> (val \<times> real) list" where
  "get_user_category_preferences db_result =
     (case db_result of
        Inl e \<Rightarrow> []
      | Inr category_counts \<Rightarrow>
          if category_counts = [] then default_preferences
          else
            let total_interactions = sum_list (map snd category_counts) in
            if total_interactions = 0 then []
            else map (\<lambda>(category, count).
                        (category, min (real_of_int count / real_of_int total_interactions * 2) 1.0))
                   category_counts)"

text \<open>
  \<^verbatim>\<open>_get_user_source_preferences\<close>. Nothing is caught here: a joined article that is
  not a dictionary, or an unhashable source, raises to the caller.
\<close>

fun count_sources :: "(val \<times> int) list \<Rightarrow> pydict list \<Rightarrow> error + (val \<times> int) list" where
  "count_sources source_counts [] = Inr source_counts"
| "count_sources source_counts (interaction # rest) =
     (case map_of interaction ''news_articles'' of
        None \<Rightarrow> count_sources source_counts rest
      | Some news_articles \<Rightarrow>
          (if \<not> truthy news_articles then count_sources source_counts rest
           else (case news_articles of
             VDict d \<Rightarrow>
               (let source = py_get d ''source'' (VStr []) in
                if \<not> truthy source then count_sources source_counts rest
                else if \<not> hashable source then Inl TypeError
                else count_sources (bump_count source_counts source) rest)
           | _ \<Rightarrow> Inl AttributeError)))"

definition get_user_source_preferences :: "pydict list \<Rightarrow> error + (val \<times> real) list" where
  "get_user_source_preferences interactions =
     (case count_sources [] interactions of
        Inl e \<Rightarrow> Inl e
      | Inr source_counts \<Rightarrow>
          if source_counts \<noteq> [] then
            let max_count = Max (set (map snd source_counts)) in
            Inr (map (\<lambda>(source, count). (source, real_of_int count / real_of_int max_count))
                   source_counts)
          else Inr [])"

section \<open>Scoring engine and personalized ranker\<close>

text \<open>
  The collaborators of \<^verbatim>\<open>RecommendationService\<close>: the clock, the storage client
  (\<^verbatim>\<open>self.db\<close>) and the relevance model (\<^verbatim>\<open>self.ml_model\<close>, a neural network, taken
  as a black box). Each call returns its value or raises.
\<close>

record collaborators =
  clk :: clock
  db_get_user_profile :: "string \<Rightarrow> error + val"
  db_get_user_interactions :: "string \<Rightarrow> int \<Rightarrow> error + pydict list"
  db_category_counts :: "string \<Rightarrow> error + (val \<times> int) list"
  db_log_recommendations :: "string \<Rightarrow> val list \<Rightarrow> val list \<Rightarrow> error + unit"
  db_get_recent_news :: "int \<Rightarrow> val \<Rightarrow> error + pydict list"
  ml_get_personalized_recommendations ::
    "pydict list \<Rightarrow> pydict list option \<Rightarrow> int \<Rightarrow> error + pydict list"

text \<open>
  \<^verbatim>\<open>x * 0.6\<close> for a value \<open>x\<close> read from a dictionary: only a number can be scaled,
  anything else raises TypeError.
\<close>

fun as_number :: "val \<Rightarrow> error + real" where
  "as_number (VNum x) = Inr x"
| "as_number v = Inl TypeError"

text \<open>The weighted sum that \<^verbatim>\<open>_apply_personalization\<close> assigns to \<^verbatim>\<open>final_score\<close>.\<close>

definition weighted_score :: "real \<Rightarrow> real \<Rightarrow> real \<Rightarrow> real \<Rightarrow> real \<Rightarrow> real" where
  "weighted_score base_score category_boost recency_boost source_boost diversity_penalty =
     base_score * 0.6 + category_boost * 0.2 + recency_boost * 0.1 +
     source_boost * 0.05 + diversity_penalty * 0.05"

text \<open>
  The body of the \<^verbatim>\<open>for article in ml_recommendations\<close> loop of
  \<^verbatim>\<open>_apply_personalization\<close>: the article with its two annotations. The articles of the
  list are taken to be distinct objects, so the in-place update of one article is a
  new value at its position.
\<close>

definition personalize_article ::
  "clock \<Rightarrow> (val \<times> real) list \<Rightarrow> (val \<times> real) list \<Rightarrow> pydict list \<Rightarrow> pydict \<Rightarrow> error + pydict" where
  "personalize_article c category_preferences source_preferences personalized_recommendations article =
     (let base_score = py_get article ''recommendation_score'' (VNum 0.5) in
      case calculate_category_boost (py_get article ''category'' (VStr ''general''))
             category_preferences of
        Inl e \<Rightarrow> Inl e
      | Inr category_boost \<Rightarrow>
          (let recency_boost = calculate_recency_boost c (py_get article ''published_at'' VNone) in
           case calculate_source_boost (py_get article ''source'' (VStr [])) source_preferences of
             Inl e \<Rightarrow> Inl e
           | Inr source_boost \<Rightarrow>
               (let diversity_penalty =
                      calculate_diversity_penalty article personalized_recommendations in
                case as_number base_score of
                  Inl e \<Rightarrow> Inl e
                | Inr base \<Rightarrow>
                    (let final_score =
                           weighted_score base category_boost recency_boost source_boost
                             diversity_penalty
                     in Inr (py_set (py_set article ''final_score'' (VNum final_score))
                               ''personalization_factors''
                               (VDict [(''base_score'', base_score),
                                       (''category_boost'', VNum category_boost),
                                       (''recency_boost'', VNum recency_boost),
                                       (''source_boost'', VNum source_boost),
                                       (''diversity_penalty'', VNum diversity_penalty)]))))))"

fun personalize_loop ::
  "clock \<Rightarrow> (val \<times> real) list \<Rightarrow> (val \<times> real) list \<Rightarrow> pydict list \<Rightarrow> pydict list \<Rightarrow> error + pydict list" where
  "personalize_loop c cp sp personalized_recommendations [] = Inr personalized_recommendations"
| "personalize_loop c cp sp personalized_recommendations (article # rest) =
     (case personalize_article c cp sp personalized_recommendations article of
        Inl e \<Rightarrow> Inl e
      | Inr scored \<Rightarrow> personalize_loop c cp sp (personalized_recommendations @ [scored]) rest)"

text \<open>
  \<^verbatim>\<open>_apply_personalization\<close>. \<^verbatim>\<open>_get_user_time_preferences\<close> is left out: its result is
  never read and its loop swallows every exception.
\<close>

definition apply_personalization ::
  "collaborators \<Rightarrow> string \<Rightarrow> pydict list \<Rightarrow> val \<Rightarrow> pydict list \<Rightarrow> error + pydict list" where
  "apply_personalization env user_id ml_recommendations user_profile user_interactions =
     (let category_preferences = get_user_category_preferences (db_category_counts env user_id) in
      case get_user_source_preferences user_interactions of
        Inl e \<Rightarrow> Inl e
      | Inr source_preferences \<Rightarrow>
          personalize_loop (clk env) category_preferences source_preferences [] ml_recommendations)"

text \<open>
  \<^verbatim>\<open>xs.sort(key=lambda x: x.get(k, 0), reverse=True)\<close>. Python's sort is stable, also
  with \<^verbatim>\<open>reverse=True\<close>: entries of equal key keep their order. Only numeric keys are
  modelled (the rankers sort lists whose every entry has just been given a numeric
  score); any other key is reported as TypeError.
\<close>

fun is_num :: "val \<Rightarrow> bool" where
  "is_num (VNum x) = True"
| "is_num v = False"

fun num_of :: "val \<Rightarrow> real" where
  "num_of (VNum x) = x"
| "num_of v = 0"

definition score_key :: "string \<Rightarrow> pydict \<Rightarrow> real" where
  "score_key k x = num_of (py_get x k (VNum 0))"

definition sort_by_score_desc :: "string \<Rightarrow> pydict list \<Rightarrow> error + pydict list" where
  "sort_by_score_desc k xs =
     (if \<forall>x \<in> set xs. is_num (py_get x k (VNum 0))
      then Inr (sort_key (\<lambda>x. - score_key k x) xs)
      else Inl TypeError)"

text \<open>\<^verbatim>\<open>[rec['id'] for rec in final_recommendations]\<close>: a missing id raises KeyError.\<close>

fun article_ids :: "pydict list \<Rightarrow> error + val list" where
  "article_ids [] = Inr []"
| "article_ids (r # rest) =
     (case map_of r ''id'' of
        None \<Rightarrow> Inl KeyError
      | Some i \<Rightarrow> (case article_ids rest of Inl e \<Rightarrow> Inl e | Inr ids \<Rightarrow> Inr (i # ids)))"

text \<open>The \<^verbatim>\<open>try\<close> block of \<^verbatim>\<open>get_personalized_recommendations\<close>.\<close>

definition personalized_try :: "collaborators \<Rightarrow> string \<Rightarrow> pydict list \<Rightarrow> int \<Rightarrow> error + pydict list" where
  "personalized_try env user_id articles top_k =
     (if articles = [] then Inr []
      else case db_get_user_profile env user_id of
        Inl e \<Rightarrow> Inl e
      | Inr user_profile \<Rightarrow>
      (case db_get_user_interactions env user_id 100 of
        Inl e \<Rightarrow> Inl e
      | Inr user_interactions \<Rightarrow>
      (case ml_get_personalized_recommendations env articles (Some user_interactions)
              (int (length articles)) of
        Inl e \<Rightarrow> Inl e
      | Inr ml_recommendations \<Rightarrow>
      (case apply_personalization env user_id ml_recommendations user_profile user_interactions of
        Inl e \<Rightarrow> Inl e
      | Inr personalized_recommendations \<Rightarrow>
      (case sort_by_score_desc ''final_score'' personalized_recommendations of
        Inl e \<Rightarrow> Inl e
      | Inr sorted_recommendations \<Rightarrow>
      (let final_recommendations = py_slice_to sorted_recommendations top_k in
       case article_ids final_recommendations of
        Inl e \<Rightarrow> Inl e
      | Inr ids \<Rightarrow>
      (let scores = map (\<lambda>rec. py_get rec ''final_score'' (VNum 0)) final_recommendations in
       case db_log_recommendations env user_id ids scores of
        Inl e \<Rightarrow> Inl e
      | Inr u \<Rightarrow> Inr final_recommendations)))))))"

text \<open>\<^verbatim>\<open>get_personalized_recommendations\<close>: any exception falls back to \<^verbatim>\<open>articles[:top_k]\<close>.\<close>

definition get_personalized_recommendations ::
  "collaborators \<Rightarrow> string \<Rightarrow> pydict list \<Rightarrow> int \<Rightarrow> pydict list" where
  "get_personalized_recommendations env user_id articles top_k =
     (case personalized_try env user_id articles top_k of
        Inl e \<Rightarrow> py_slice_to articles top_k
      | Inr final_recommendations \<Rightarrow> final_recommendations)"

section \<open>Trending and category rankers\<close>

text \<open>\<^verbatim>\<open>_get_source_credibility\<close>.\<close>

definition credible_sources :: "(val \<times> real) list" where
  "credible_sources =
     [(VStr ''Reuters'', 1.0), (VStr ''BBC'', 1.0), (VStr ''Associated Press'', 1.0),
      (VStr ''Bloomberg'', 0.9), (VStr ''CNN'', 0.8), (VStr ''TechCrunch'', 0.8),
      (VStr ''Wired'', 0.8), (VStr ''Nature'', 1.0), (VStr ''Science Daily'', 0.9)]"

definition get_source_credibility :: "val \<Rightarrow> error + real" where
  "get_source_credibility source = table_get credible_sources source 0.6"

text \<open>The scoring loop of \<^verbatim>\<open>get_trending_recommendations\<close>.\<close>

definition trending_article :: "clock \<Rightarrow> pydict \<Rightarrow> error + pydict" where
  "trending_article c article =
     (let recency_score = calculate_recency_boost c (py_get article ''published_at'' (VStr [])) in
      case get_source_credibility (py_get article ''source'' (VStr [])) of
        Inl e \<Rightarrow> Inl e
      | Inr source_credibility \<Rightarrow>
          (case as_number (py_get article ''recommendation_score'' (VNum 0.5)) of
             Inl e \<Rightarrow> Inl e
           | Inr base \<Rightarrow>
               Inr (py_set article ''trending_score''
                      (VNum (base * 0.6 + recency_score * 0.3 + source_credibility * 0.1)))))"

fun trending_loop :: "clock \<Rightarrow> pydict list \<Rightarrow> error + pydict list" where
  "trending_loop c [] = Inr []"
| "trending_loop c (article # rest) =
     (case trending_article c article of
        Inl e \<Rightarrow> Inl e
      | Inr scored \<Rightarrow>
          (case trending_loop c rest of Inl e \<Rightarrow> Inl e | Inr done \<Rightarrow> Inr (scored # done)))"

definition trending_try :: "collaborators \<Rightarrow> int \<Rightarrow> error + pydict list" where
  "trending_try env limit =
     (case db_get_recent_news env (limit * 2) VNone of
        Inl e \<Rightarrow> Inl e
      | Inr recent_articles \<Rightarrow>
          (if recent_articles = [] then Inr []
           else (case ml_get_personalized_recommendations env recent_articles None limit of
             Inl e \<Rightarrow> Inl e
           | Inr ml_recommendations \<Rightarrow>
               (case trending_loop (clk env) ml_recommendations of
                  Inl e \<Rightarrow> Inl e
                | Inr scored \<Rightarrow>
                    (case sort_by_score_desc ''trending_score'' scored of
                       Inl e \<Rightarrow> Inl e
                     | Inr sorted_recommendations \<Rightarrow>
                         Inr (py_slice_to sorted_recommendations limit))))))"

text \<open>\<^verbatim>\<open>get_trending_recommendations\<close>: any exception gives \<^verbatim>\<open>[]\<close>.\<close>

definition get_trending_recommendations :: "collaborators \<Rightarrow> int \<Rightarrow> pydict list" where
  "get_trending_recommendations env limit =
     (case trending_try env limit of Inl e \<Rightarrow> [] | Inr r \<Rightarrow> r)"

text \<open>
  \<^verbatim>\<open>get_category_recommendations\<close>; \<^verbatim>\<open>user_id: str = None\<close> is an optional string,
  and \<^verbatim>\<open>if user_id:\<close> holds for a non-empty one. Any exception gives \<^verbatim>\<open>[]\<close>.
\<close>

definition category_try ::
  "collaborators \<Rightarrow> val \<Rightarrow> string option \<Rightarrow> int \<Rightarrow> error + pydict list" where
  "category_try env category user_id limit =
     (case db_get_recent_news env (limit * 2) category of
        Inl e \<Rightarrow> Inl e
      | Inr category_articles \<Rightarrow>
          (if category_articles = [] then Inr []
           else (case user_id of
             Some u \<Rightarrow>
               (if u \<noteq> [] then Inr (get_personalized_recommendations env u category_articles limit)
                else ml_get_personalized_recommendations env category_articles None limit)
           | None \<Rightarrow> ml_get_personalized_recommendations env category_articles None limit)))"

definition get_category_recommendations ::
  "collaborators \<Rightarrow> val \<Rightarrow> string option \<Rightarrow> int \<Rightarrow> pydict list" where
  "get_category_recommendations env category user_id limit =
     (case category_try env category user_id limit of Inl e \<Rightarrow> [] | Inr r \<Rightarrow> r)"

section \<open>Deduplicator (news\_service.py)\<close>

text \<open>
  \<^verbatim>\<open>str.lower()\<close> and \<^verbatim>\<open>str.strip()\<close> on titles whose characters are code points below
  256: the upper-case letters are A to Z and U+00C0 to U+00DE without the
  multiplication sign U+00D7, each 32 below its lower-case letter; white space is
  U+0009 to U+000D, U+001C to U+0020, U+0085 and U+00A0.
\<close>

definition py_lower_char :: "char \<Rightarrow> char" where
  "py_lower_char c =
     (let n = (of_char c :: nat) in
      if (65 \<le> n \<and> n \<le> 90) \<or> (192 \<le> n \<and> n \<le> 222 \<and> n \<noteq> 215)
      then char_of (n + 32) else c)"

definition py_lower :: "string \<Rightarrow> string" where
  "py_lower s = map py_lower_char s"

definition py_isspace :: "char \<Rightarrow> bool" where
  "py_isspace c =
     (let n = (of_char c :: nat) in
      (9 \<le> n \<and> n \<le> 13) \<or> (28 \<le> n \<and> n \<le> 32) \<or> n = 133 \<or> n = 160)"

definition py_strip :: "string \<Rightarrow> string" where
  "py_strip s = rev (dropWhile py_isspace (rev (dropWhile py_isspace s)))"

text \<open>
  \<^verbatim>\<open>NewsService._remove_duplicates\<close>. \<^verbatim>\<open>article["title"]\<close> raises KeyError without the
  key, and a title that is not a string has no \<^verbatim>\<open>lower\<close>.
\<close>

fun remove_duplicates_loop ::
  "string set \<Rightarrow> pydict list \<Rightarrow> pydict list \<Rightarrow> error + pydict list" where
  "remove_duplicates_loop seen_titles unique_articles [] = Inr unique_articles"
| "remove_duplicates_loop seen_titles unique_articles (article # rest) =
     (case map_of article ''title'' of
        None \<Rightarrow> Inl KeyError
      | Some (VStr title) \<Rightarrow>
          (let title_lower = py_strip (py_lower title) in
           if title_lower \<notin> seen_titles
           then remove_duplicates_loop (insert title_lower seen_titles)
                  (unique_articles @ [article]) rest
           else remove_duplicates_loop seen_titles unique_articles rest)
      | Some v \<Rightarrow> Inl AttributeError)"

definition remove_duplicates :: "pydict list \<Rightarrow> error + pydict list" where
  "remove_duplicates articles = remove_duplicates_loop {} [] articles"

section \<open>Notions used to state the properties\<close>

text \<open>
  A recommendation that the scoring loop can score without a TypeError: its category and
  source are hashable and its relevance score is a number or absent.
\<close>

definition scorable :: "pydict \<Rightarrow> bool" where
  "scorable a \<longleftrightarrow>
     hashable (py_get a ''category'' (VStr ''general'')) \<and>
     hashable (py_get a ''source'' (VStr [])) \<and>
     is_num (py_get a ''recommendation_score'' (VNum 0.5))"

text \<open>
  The normalized title of an article that carries a string title, and the positions of
  a list of articles at which a normalized title outside \<open>seen\<close> occurs for the first
  time.
\<close>

definition title_key :: "pydict \<Rightarrow> string" where
  "title_key a = (case map_of a ''title'' of Some (VStr t) \<Rightarrow> py_strip (py_lower t) | _ \<Rightarrow> [])"

definition first_occurrences :: "string set \<Rightarrow> pydict list \<Rightarrow> nat set" where
  "first_occurrences seen xs =
     {i. title_key (xs ! i) \<notin> seen \<and> (\<forall>j<i. title_key (xs ! j) \<noteq> title_key (xs ! i))}"

definition has_title :: "pydict \<Rightarrow> bool" where
  "has_title a \<longleftrightarrow> (\<exists>t. map_of a ''title'' = Some (VStr t))"

section \<open>Sample inputs\<close>

text \<open>
  A clock thirty minutes after 2024-12-17T10:00:00 UTC whose parser knows that instant
  in its naive and in its offset-carrying spelling; two candidate articles, the first
  without a relevance score; and collaborators for a user without history: no
  interactions, no category counts, a model that returns the candidates as they are.
\<close>

definition sample_clock :: clock where
  "sample_clock =
     \<lparr>utcnow = 1734431400,
      fromisoformat = (\<lambda>s. if s = ''2024-12-17T10:00:00'' then Some (Naive 1734429600)
                           else if s = ''2024-12-17T10:00:00+00:00'' then Some (Aware 1734429600)
                           else None)\<rparr>"

definition sample_articles :: "pydict list" where
  "sample_articles =
     [[(''id'', VStr ''a1''), (''title'', VStr ''Chip makers rally''),
       (''category'', VStr ''technology''), (''source'', VStr ''Wired''),
       (''published_at'', VStr ''2024-12-17T10:00:00'')],
      [(''id'', VStr ''a2''), (''title'', VStr ''New phone''),
       (''category'', VStr ''technology''), (''source'', VStr ''BBC''),
       (''recommendation_score'', VNum 0.9)]]"

definition sample_env :: collaborators where
  "sample_env =
     \<lparr>clk = sample_clock,
      db_get_user_profile = (\<lambda>user_id. Inr VNone),
      db_get_user_interactions = (\<lambda>user_id limit. Inr []),
      db_category_counts = (\<lambda>user_id. Inr []),
      db_log_recommendations = (\<lambda>user_id ids scores. Inr ()),
      db_get_recent_news = (\<lambda>limit category. Inr sample_articles),
      ml_get_personalized_recommendations = (\<lambda>articles history top_k. Inr articles)\<rparr>"

text \<open>The same collaborators with a relevance model that raises.\<close>

definition failing_model_env :: collaborators where
  "failing_model_env =
     sample_env\<lparr>ml_get_personalized_recommendations :=
                   (\<lambda>articles history top_k. Inl CollaboratorError)\<rparr>"

text \<open>The same collaborators with a relevance model that returns no scores.\<close>

definition empty_model_env :: collaborators where
  "empty_model_env =
     sample_env\<lparr>ml_get_personalized_recommendations := (\<lambda>articles history top_k. Inr [])\<rparr>"

text \<open>Three fetched articles; the third repeats the first title in another spelling.\<close>

definition sample_feed :: "pydict list" where
  "sample_feed =
     [[(''title'', VStr ''Chip makers rally''), (''source'', VStr ''Wired'')],
      [(''title'', VStr ''New phone''), (''source'', VStr ''BBC'')],
      [(''title'', VStr ''  CHIP makers Rally ''), (''source'', VStr ''CNN'')]]"

text \<open>
  The rows of a query of \<^verbatim>\<open>user_interactions\<close> joined with the article's category:
  three interactions with technology articles, one with a business article, one
  whose article is gone.
\<close>

definition sample_rows :: "pydict list" where
  "sample_rows =
     [[(''news_articles'', VDict [(''category'', VStr ''technology'')])],
      [(''news_articles'', VDict [(''category'', VStr ''business'')])],
      [(''news_articles'', VDict [(''category'', VStr ''technology'')])],
      [(''news_articles'', VNone)],
      [(''news_articles'', VDict [(''category'', VStr ''technology'')])]]"

text \<open>The rows of a user with a single interaction, with a technology article.\<close>

definition single_row :: "pydict list" where
  "single_row = [[(''news_articles'', VDict [(''category'', VStr ''technology'')])]]"

section \<open>Properties\<close>

subsection \<open>Diversity penalty\<close>

lemma sum_list_ones: "sum_list (map (\<lambda>x. Suc 0) xs) = length xs"
  by (induction xs) simp_all

lemma diversity_penalty_nonempty:
  "existing \<noteq> [] \<Longrightarrow>
     calculate_diversity_penalty article existing =
       min (max 0.5 (1.0 - 0.1 * real (length (filter (\<lambda>rec. py_get rec ''category'' VNone = py_get article ''category'' (VStr [])) existing))))
           (max 0.5 (1.0 - 0.15 * real (length (filter (\<lambda>rec. py_get rec ''source'' VNone = py_get article ''source'' (VStr [])) existing))))"
  by (simp add: calculate_diversity_penalty_def Let_def sum_list_ones mult.commute)

lemma diversity_penalty_bounds:
  "0.5 \<le> calculate_diversity_penalty article existing \<and>
   calculate_diversity_penalty article existing \<le> 1.0"
proof (cases "existing = []")
  case True
  then show ?thesis by (simp add: calculate_diversity_penalty_def)
next
  case False
  have "(1::real) - 0.1 * real n \<le> 1" for n by simp
  then have "max 0.5 (1 - 0.1 * real n) \<le> (1::real)" for n by simp
  then show ?thesis
    unfolding diversity_penalty_nonempty [OF False]
    by (simp add: min_le_iff_disj)
qed

text \<open>
  C2. The diversity penalty is 1.0 against an empty list of accepted results; against a
  non-empty one it is \<open>min (max 0.5 (1 - 0.1 c)) (max 0.5 (1 - 0.15 s))\<close>, where \<open>c\<close>
  counts the accepted results whose category equals the article's category (read with
  default \<^verbatim>\<open>''\<close>) and \<open>s\<close> those whose source equals the article's source; it always
  lies between 0.5 and 1.0.
\<close>

theorem diversity_penalty_formula:
  "calculate_diversity_penalty article [] = 1.0 \<and>
   (existing \<noteq> [] \<longrightarrow>
      calculate_diversity_penalty article existing =
        min (max 0.5 (1.0 - 0.1 * real (length (filter (\<lambda>rec. py_get rec ''category'' VNone = py_get article ''category'' (VStr [])) existing))))
            (max 0.5 (1.0 - 0.15 * real (length (filter (\<lambda>rec. py_get rec ''source'' VNone = py_get article ''source'' (VStr [])) existing))))) \<and>
   0.5 \<le> calculate_diversity_penalty article existing \<and>
   calculate_diversity_penalty article existing \<le> 1.0"
proof -
  have "calculate_diversity_penalty article [] = 1.0"
    by (simp add: calculate_diversity_penalty_def)
  then show ?thesis
    using diversity_penalty_nonempty [of existing article]
      diversity_penalty_bounds [of article existing]
    by blast
qed

theorem diversity_penalty_formula_witness:
  "calculate_diversity_penalty [(''category'', VStr ''technology''), (''source'', VStr ''BBC'')]
     [[(''category'', VStr ''technology''), (''source'', VStr ''Wired'')],
      [(''category'', VStr ''technology''), (''source'', VStr ''BBC'')]] = 0.8"
  using diversity_penalty_formula
    [of "[(''category'', VStr ''technology''), (''source'', VStr ''BBC'')]"
        "[[(''category'', VStr ''technology''), (''source'', VStr ''Wired'')],
          [(''category'', VStr ''technology''), (''source'', VStr ''BBC'')]]"]
  by (simp add: py_get_def)

subsection \<open>The personalization pass\<close>

lemma map_of_py_set: "map_of (py_set d k v) k' = (if k' = k then Some v else map_of d k')"
  by (simp add: py_set_def update_conv')


lemma as_number_Inr: "as_number v = Inr x \<longleftrightarrow> v = VNum x"
  by (cases v) auto

lemma is_num_conv: "is_num v \<longleftrightarrow> (\<exists>x. v = VNum x)"
  by (cases v) auto

lemma personalize_article_Inr:
  assumes "personalize_article c cp sp acc a = Inr b"
  shows "\<exists>base cb sb.
           py_get a ''recommendation_score'' (VNum 0.5) = VNum base \<and>
           calculate_category_boost (py_get a ''category'' (VStr ''general'')) cp = Inr cb \<and>
           calculate_source_boost (py_get a ''source'' (VStr [])) sp = Inr sb \<and>
           b = py_set (py_set a ''final_score''
                 (VNum (weighted_score base cb
                    (calculate_recency_boost c (py_get a ''published_at'' VNone)) sb
                    (calculate_diversity_penalty a acc))))
                 ''personalization_factors''
                 (VDict [(''base_score'', VNum base), (''category_boost'', VNum cb),
                    (''recency_boost'', VNum (calculate_recency_boost c (py_get a ''published_at'' VNone))),
                    (''source_boost'', VNum sb),
                    (''diversity_penalty'', VNum (calculate_diversity_penalty a acc))])"
  using assms
  by (auto simp: personalize_article_def Let_def as_number_Inr split: sum.splits)

lemma personalize_article_total:
  assumes "scorable a"
  shows "\<exists>b. personalize_article c cp sp acc a = Inr b"
proof -
  from assms obtain base where b: "py_get a ''recommendation_score'' (VNum 0.5) = VNum base"
    by (auto simp: scorable_def is_num_conv)
  from assms obtain cb where cb: "calculate_category_boost (py_get a ''category'' (VStr ''general'')) cp = Inr cb"
    by (auto simp: scorable_def calculate_category_boost_def table_get_def)
  from assms obtain sb where sb: "calculate_source_boost (py_get a ''source'' (VStr [])) sp = Inr sb"
    by (auto simp: scorable_def calculate_source_boost_def table_get_def)
  show ?thesis
    using b cb sb by (simp add: personalize_article_def Let_def)
qed

lemma personalize_loop_Inr:
  "personalize_loop c cp sp acc xs = Inr out \<Longrightarrow>
     length out = length acc + length xs \<and> take (length acc) out = acc \<and>
     (\<forall>i<length xs. personalize_article c cp sp (take (length acc + i) out) (xs ! i)
                       = Inr (out ! (length acc + i)))"
proof (induction xs arbitrary: acc)
  case Nil
  then show ?case by simp
next
  case (Cons x xs)
  from Cons.prems obtain s where s: "personalize_article c cp sp acc x = Inr s"
    and rest: "personalize_loop c cp sp (acc @ [s]) xs = Inr out"
    by (auto split: sum.splits)
  from Cons.IH [OF rest] have len: "length out = length acc + 1 + length xs"
    and tk: "take (Suc (length acc)) out = acc @ [s]"
    and nth: "\<forall>i<length xs. personalize_article c cp sp (take (Suc (length acc) + i) out) (xs ! i)
                       = Inr (out ! (Suc (length acc) + i))"
    by simp_all
  have "take (length acc) (take (Suc (length acc)) out) = take (length acc) (acc @ [s])"
    by (simp only: tk)
  then have tk0: "take (length acc) out = acc" by simp
  have "take (Suc (length acc)) out ! length acc = (acc @ [s]) ! length acc"
    by (simp only: tk)
  then have s0: "out ! length acc = s" by simp
  have "personalize_article c cp sp (take (length acc + i) out) ((x # xs) ! i)
          = Inr (out ! (length acc + i))" if "i < length (x # xs)" for i
  proof (cases i)
    case 0
    then show ?thesis using s tk0 s0 by simp
  next
    case (Suc j)
    then show ?thesis using nth that by simp
  qed
  then show ?case using len tk0 by simp
qed

lemma personalize_loop_total:
  "\<forall>a\<in>set xs. scorable a \<Longrightarrow> \<exists>out. personalize_loop c cp sp acc xs = Inr out"
proof (induction xs arbitrary: acc)
  case Nil
  then show ?case by simp
next
  case (Cons x xs)
  then obtain s where "personalize_article c cp sp acc x = Inr s"
    using personalize_article_total [of x c cp sp acc] by auto
  then show ?case using Cons by simp
qed

lemma apply_personalization_Inr:
  assumes "apply_personalization env uid ml profile ui = Inr out"
  shows "\<exists>sp. get_user_source_preferences ui = Inr sp \<and> length out = length ml \<and>
     (\<forall>i<length ml.
        personalize_article (clk env) (get_user_category_preferences (db_category_counts env uid)) sp
          (take i out) (ml ! i) = Inr (out ! i))"
proof -
  from assms obtain sp where sp: "get_user_source_preferences ui = Inr sp"
    and loop: "personalize_loop (clk env) (get_user_category_preferences (db_category_counts env uid)) sp [] ml = Inr out"
    by (auto simp: apply_personalization_def Let_def split: sum.splits)
  from personalize_loop_Inr [OF loop] sp show ?thesis by simp
qed

lemma apply_personalization_total:
  assumes "get_user_source_preferences ui = Inr sp" and "\<forall>a\<in>set ml. scorable a"
  shows "\<exists>out. apply_personalization env uid ml profile ui = Inr out"
  using personalize_loop_total [OF assms(2)] assms(1)
  by (simp add: apply_personalization_def Let_def)

lemma base_score_case:
  "py_get a ''recommendation_score'' (VNum 0.5) = VNum base \<Longrightarrow>
   (case map_of a ''recommendation_score'' of None \<Rightarrow> 0.5 | Some v \<Rightarrow> num_of v) = base"
  by (auto simp: py_get_def split: option.splits)

text \<open>
  C1. When the source preferences can be computed and every article has hashable
  category and source and a numeric or absent relevance score, the pass returns one
  entry per article, and the \<^verbatim>\<open>final_score\<close> of each is
  \<open>base * 0.6 + categoryBoost * 0.2 + recencyBoost * 0.1 + sourceBoost * 0.05 +
  diversityPenalty * 0.05\<close>, where \<open>base\<close> is 0.5 for an article without
  \<^verbatim>\<open>recommendation_score\<close>; no article is dropped for lacking one.
\<close>

theorem final_score_formula:
  assumes "get_user_source_preferences ui = Inr sp" and "\<forall>a\<in>set ml. scorable a"
  shows "\<exists>out. apply_personalization env uid ml profile ui = Inr out \<and> length out = length ml \<and>
     (\<forall>i<length ml. \<exists>cb sb.
        calculate_category_boost (py_get (ml ! i) ''category'' (VStr ''general''))
          (get_user_category_preferences (db_category_counts env uid)) = Inr cb \<and>
        calculate_source_boost (py_get (ml ! i) ''source'' (VStr [])) sp = Inr sb \<and>
        map_of (out ! i) ''final_score'' = Some (VNum (
           (case map_of (ml ! i) ''recommendation_score'' of None \<Rightarrow> 0.5 | Some v \<Rightarrow> num_of v) * 0.6
           + cb * 0.2
           + calculate_recency_boost (clk env) (py_get (ml ! i) ''published_at'' VNone) * 0.1
           + sb * 0.05
           + calculate_diversity_penalty (ml ! i) (take i out) * 0.05)))"
proof -
  from apply_personalization_total [OF assms] obtain out
    where out: "apply_personalization env uid ml profile ui = Inr out" by blast
  from apply_personalization_Inr [OF out] assms(1)
  have len: "length out = length ml"
    and step: "\<forall>i<length ml.
        personalize_article (clk env) (get_user_category_preferences (db_category_counts env uid)) sp
          (take i out) (ml ! i) = Inr (out ! i)"
    by auto
  have "\<exists>cb sb.
        calculate_category_boost (py_get (ml ! i) ''category'' (VStr ''general''))
          (get_user_category_preferences (db_category_counts env uid)) = Inr cb \<and>
        calculate_source_boost (py_get (ml ! i) ''source'' (VStr [])) sp = Inr sb \<and>
        map_of (out ! i) ''final_score'' = Some (VNum (
           (case map_of (ml ! i) ''recommendation_score'' of None \<Rightarrow> 0.5 | Some v \<Rightarrow> num_of v) * 0.6
           + cb * 0.2
           + calculate_recency_boost (clk env) (py_get (ml ! i) ''published_at'' VNone) * 0.1
           + sb * 0.05
           + calculate_diversity_penalty (ml ! i) (take i out) * 0.05))" if i: "i < length ml" for i
  proof -
    from step i have "personalize_article (clk env)
        (get_user_category_preferences (db_category_counts env uid)) sp (take i out) (ml ! i)
          = Inr (out ! i)" by simp
    from personalize_article_Inr [OF this] obtain base cb sb where
      b: "py_get (ml ! i) ''recommendation_score'' (VNum 0.5) = VNum base" and
      cb: "calculate_category_boost (py_get (ml ! i) ''category'' (VStr ''general''))
          (get_user_category_preferences (db_category_counts env uid)) = Inr cb" and
      sb: "calculate_source_boost (py_get (ml ! i) ''source'' (VStr [])) sp = Inr sb" and
      o: "out ! i = py_set (py_set (ml ! i) ''final_score''
                 (VNum (weighted_score base cb
                    (calculate_recency_boost (clk env) (py_get (ml ! i) ''published_at'' VNone)) sb
                    (calculate_diversity_penalty (ml ! i) (take i out)))))
                 ''personalization_factors''
                 (VDict [(''base_score'', VNum base), (''category_boost'', VNum cb),
                    (''recency_boost'', VNum (calculate_recency_boost (clk env) (py_get (ml ! i) ''published_at'' VNone))),
                    (''source_boost'', VNum sb),
                    (''diversity_penalty'', VNum (calculate_diversity_penalty (ml ! i) (take i out)))])"
      by blast
    have "map_of (out ! i) ''final_score'' = Some (VNum (weighted_score base cb
                    (calculate_recency_boost (clk env) (py_get (ml ! i) ''published_at'' VNone)) sb
                    (calculate_diversity_penalty (ml ! i) (take i out))))"
      by (simp add: o map_of_py_set)
    then show ?thesis
      using cb sb base_score_case [OF b] by (simp add: weighted_score_def)
  qed
  with out len show ?thesis by blast
qed

theorem final_score_formula_witness:
  "get_user_source_preferences [] = Inr [] \<and> list_all scorable sample_articles \<and>
   (\<exists>out. apply_personalization sample_env ''u1'' sample_articles VNone [] = Inr out \<and>
      length out = 2 \<and> map_of (out ! 0) ''final_score'' = Some (VNum 0.635))"
proof -
  have h1: "get_user_source_preferences [] = Inr []"
    by (simp add: get_user_source_preferences_def)
  have h2: "\<forall>a\<in>set sample_articles. scorable a"
    by (simp add: sample_articles_def scorable_def py_get_def)
  from final_score_formula [OF h1 h2, of sample_env "''u1''" VNone] obtain out where
    out: "apply_personalization sample_env ''u1'' sample_articles VNone [] = Inr out"
    and len: "length out = length sample_articles"
    and all: "\<forall>i<length sample_articles. \<exists>cb sb.
        calculate_category_boost (py_get (sample_articles ! i) ''category'' (VStr ''general''))
          (get_user_category_preferences (db_category_counts sample_env ''u1'')) = Inr cb \<and>
        calculate_source_boost (py_get (sample_articles ! i) ''source'' (VStr [])) [] = Inr sb \<and>
        map_of (out ! i) ''final_score'' = Some (VNum (
           (case map_of (sample_articles ! i) ''recommendation_score'' of None \<Rightarrow> 0.5 | Some v \<Rightarrow> num_of v) * 0.6
           + cb * 0.2
           + calculate_recency_boost (clk sample_env) (py_get (sample_articles ! i) ''published_at'' VNone) * 0.1
           + sb * 0.05
           + calculate_diversity_penalty (sample_articles ! i) (take i out) * 0.05))"
    by blast
  have "0 < length sample_articles" by (simp add: sample_articles_def)
  with all obtain cb sb where
    cb: "calculate_category_boost (py_get (sample_articles ! 0) ''category'' (VStr ''general''))
          (get_user_category_preferences (db_category_counts sample_env ''u1'')) = Inr cb" and
    sb: "calculate_source_boost (py_get (sample_articles ! 0) ''source'' (VStr [])) [] = Inr sb" and
    f: "map_of (out ! 0) ''final_score'' = Some (VNum (
           (case map_of (sample_articles ! 0) ''recommendation_score'' of None \<Rightarrow> 0.5 | Some v \<Rightarrow> num_of v) * 0.6
           + cb * 0.2
           + calculate_recency_boost (clk sample_env) (py_get (sample_articles ! 0) ''published_at'' VNone) * 0.1
           + sb * 0.05
           + calculate_diversity_penalty (sample_articles ! 0) (take 0 out) * 0.05))"
    by blast
  from cb have cbv: "cb = 0.8"
    by (simp add: sample_articles_def sample_env_def py_get_def calculate_category_boost_def
        table_get_def category_weights_def get_user_category_preferences_def default_preferences_def)
  from sb have sbv: "sb = 0.5"
    by (simp add: sample_articles_def py_get_def calculate_source_boost_def table_get_def)
  have r: "calculate_recency_boost (clk sample_env) (py_get (sample_articles ! 0) ''published_at'' VNone) = 1"
    by (simp add: sample_articles_def sample_env_def sample_clock_def py_get_def replace_Z_def
        recency_steps_def)
  have "map_of (out ! 0) ''final_score'' = Some (VNum 0.635)"
    using f unfolding cbv sbv r
    by (simp add: sample_articles_def calculate_diversity_penalty_def)
  with h1 h2 out len show ?thesis by (auto simp: sample_articles_def list_all_iff)
qed

text \<open>
  C10. The pass returns exactly one entry per input recommendation; entry \<open>i\<close> agrees
  with input \<open>i\<close> on every key other than \<^verbatim>\<open>final_score\<close> and
  \<^verbatim>\<open>personalization_factors\<close>. Under \<^verbatim>\<open>final_score\<close> it carries the weighted sum of
  the five computed components, and under \<^verbatim>\<open>personalization_factors\<close> exactly these
  components: base\_score (the relevance score read, 0.5 when absent), category\_boost,
  recency\_boost, source\_boost and diversity\_penalty (against the entries before \<open>i\<close>),
  each under its own key.
\<close>

theorem personalization_frame:
  assumes "get_user_source_preferences ui = Inr sp" and "\<forall>a\<in>set ml. scorable a"
  shows "\<exists>out. apply_personalization env uid ml profile ui = Inr out \<and> length out = length ml \<and>
     (\<forall>i<length ml.
        (\<forall>k. k \<noteq> ''final_score'' \<and> k \<noteq> ''personalization_factors'' \<longrightarrow>
               map_of (out ! i) k = map_of (ml ! i) k) \<and>
        (\<exists>base cb sb.
           py_get (ml ! i) ''recommendation_score'' (VNum 0.5) = VNum base \<and>
           calculate_category_boost (py_get (ml ! i) ''category'' (VStr ''general''))
             (get_user_category_preferences (db_category_counts env uid)) = Inr cb \<and>
           calculate_source_boost (py_get (ml ! i) ''source'' (VStr [])) sp = Inr sb \<and>
           map_of (out ! i) ''final_score'' = Some (VNum (
              base * 0.6 + cb * 0.2
              + calculate_recency_boost (clk env) (py_get (ml ! i) ''published_at'' VNone) * 0.1
              + sb * 0.05
              + calculate_diversity_penalty (ml ! i) (take i out) * 0.05)) \<and>
           map_of (out ! i) ''personalization_factors'' =
             Some (VDict
               [(''base_score'', VNum base),
                (''category_boost'', VNum cb),
                (''recency_boost'',
                   VNum (calculate_recency_boost (clk env) (py_get (ml ! i) ''published_at'' VNone))),
                (''source_boost'', VNum sb),
                (''diversity_penalty'',
                   VNum (calculate_diversity_penalty (ml ! i) (take i out)))])))"
proof -
  from apply_personalization_total [OF assms] obtain out
    where out: "apply_personalization env uid ml profile ui = Inr out" by blast
  from apply_personalization_Inr [OF out] assms(1)
  have len: "length out = length ml"
    and step: "\<forall>i<length ml.
        personalize_article (clk env) (get_user_category_preferences (db_category_counts env uid)) sp
          (take i out) (ml ! i) = Inr (out ! i)"
    by auto
  have "(\<forall>k. k \<noteq> ''final_score'' \<and> k \<noteq> ''personalization_factors'' \<longrightarrow>
               map_of (out ! i) k = map_of (ml ! i) k) \<and>
        (\<exists>base cb sb.
           py_get (ml ! i) ''recommendation_score'' (VNum 0.5) = VNum base \<and>
           calculate_category_boost (py_get (ml ! i) ''category'' (VStr ''general''))
             (get_user_category_preferences (db_category_counts env uid)) = Inr cb \<and>
           calculate_source_boost (py_get (ml ! i) ''source'' (VStr [])) sp = Inr sb \<and>
           map_of (out ! i) ''final_score'' = Some (VNum (
              base * 0.6 + cb * 0.2
              + calculate_recency_boost (clk env) (py_get (ml ! i) ''published_at'' VNone) * 0.1
              + sb * 0.05
              + calculate_diversity_penalty (ml ! i) (take i out) * 0.05)) \<and>
           map_of (out ! i) ''personalization_factors'' =
             Some (VDict
               [(''base_score'', VNum base),
                (''category_boost'', VNum cb),
                (''recency_boost'',
                   VNum (calculate_recency_boost (clk env) (py_get (ml ! i) ''published_at'' VNone))),
                (''source_boost'', VNum sb),
                (''diversity_penalty'',
                   VNum (calculate_diversity_penalty (ml ! i) (take i out)))]))"
    if i: "i < length ml" for i
  proof -
    from step i have "personalize_article (clk env)
        (get_user_category_preferences (db_category_counts env uid)) sp (take i out) (ml ! i)
          = Inr (out ! i)" by simp
    from personalize_article_Inr [OF this] obtain base cb sb where
      b: "py_get (ml ! i) ''recommendation_score'' (VNum 0.5) = VNum base" and
      cb: "calculate_category_boost (py_get (ml ! i) ''category'' (VStr ''general''))
          (get_user_category_preferences (db_category_counts env uid)) = Inr cb" and
      sb: "calculate_source_boost (py_get (ml ! i) ''source'' (VStr [])) sp = Inr sb" and
      o: "out ! i = py_set (py_set (ml ! i) ''final_score''
                 (VNum (weighted_score base cb
                    (calculate_recency_boost (clk env) (py_get (ml ! i) ''published_at'' VNone)) sb
                    (calculate_diversity_penalty (ml ! i) (take i out)))))
                 ''personalization_factors''
                 (VDict [(''base_score'', VNum base), (''category_boost'', VNum cb),
                    (''recency_boost'', VNum (calculate_recency_boost (clk env) (py_get (ml ! i) ''published_at'' VNone))),
                    (''source_boost'', VNum sb),
                    (''diversity_penalty'', VNum (calculate_diversity_penalty (ml ! i) (take i out)))])"
      by blast
    have frame: "\<forall>k. k \<noteq> ''final_score'' \<and> k \<noteq> ''personalization_factors'' \<longrightarrow>
               map_of (out ! i) k = map_of (ml ! i) k"
      by (simp add: o map_of_py_set)
    have fs: "map_of (out ! i) ''final_score'' = Some (VNum (
              base * 0.6 + cb * 0.2
              + calculate_recency_boost (clk env) (py_get (ml ! i) ''published_at'' VNone) * 0.1
              + sb * 0.05
              + calculate_diversity_penalty (ml ! i) (take i out) * 0.05))"
      by (simp add: o map_of_py_set weighted_score_def)
    have pf: "map_of (out ! i) ''personalization_factors'' =
             Some (VDict
               [(''base_score'', VNum base),
                (''category_boost'', VNum cb),
                (''recency_boost'',
                   VNum (calculate_recency_boost (clk env) (py_get (ml ! i) ''published_at'' VNone))),
                (''source_boost'', VNum sb),
                (''diversity_penalty'',
                   VNum (calculate_diversity_penalty (ml ! i) (take i out)))])"
      by (simp add: o map_of_py_set)
    from frame b cb sb fs pf show ?thesis by blast
  qed
  with out len show ?thesis by blast
qed

theorem personalization_frame_witness:
  "get_user_source_preferences [] = Inr [] \<and> list_all scorable sample_articles \<and>
   (\<exists>out. apply_personalization sample_env ''u1'' sample_articles VNone [] = Inr out \<and>
      length out = 2 \<and> map_of (out ! 0) ''title'' = Some (VStr ''Chip makers rally'') \<and>
      map_of (out ! 0) ''recommendation_score'' = None \<and>
      map_of (out ! 0) ''final_score'' = Some (VNum 0.635) \<and>
      map_of (out ! 0) ''personalization_factors'' =
        Some (VDict [(''base_score'', VNum 0.5), (''category_boost'', VNum 0.8),
                     (''recency_boost'', VNum 1), (''source_boost'', VNum 0.5),
                     (''diversity_penalty'', VNum 1)]))"
proof -
  have h1: "get_user_source_preferences [] = Inr []"
    by (simp add: get_user_source_preferences_def)
  have h2: "\<forall>a\<in>set sample_articles. scorable a"
    by (simp add: sample_articles_def scorable_def py_get_def)
  have l0: "0 < length sample_articles" by (simp add: sample_articles_def)
  have a0: "sample_articles ! 0 =
      [(''id'', VStr ''a1''), (''title'', VStr ''Chip makers rally''),
       (''category'', VStr ''technology''), (''source'', VStr ''Wired''),
       (''published_at'', VStr ''2024-12-17T10:00:00'')]"
    by (simp add: sample_articles_def)
  have bq: "py_get (sample_articles ! 0) ''recommendation_score'' (VNum 0.5) = VNum 0.5"
    by (simp add: a0 py_get_def)
  have cq: "calculate_category_boost (py_get (sample_articles ! 0) ''category'' (VStr ''general''))
             (get_user_category_preferences (db_category_counts sample_env ''u1'')) = Inr 0.8"
    by (simp add: a0 sample_env_def py_get_def calculate_category_boost_def
        table_get_def category_weights_def get_user_category_preferences_def default_preferences_def)
  have sq: "calculate_source_boost (py_get (sample_articles ! 0) ''source'' (VStr [])) [] = Inr 0.5"
    by (simp add: a0 py_get_def calculate_source_boost_def table_get_def)
  have r: "calculate_recency_boost (clk sample_env) (py_get (sample_articles ! 0) ''published_at'' VNone) = 1"
    by (simp add: a0 sample_env_def sample_clock_def py_get_def replace_Z_def recency_steps_def)
  have d: "calculate_diversity_penalty (sample_articles ! 0) (take 0 out) = 1" for out
    by (simp add: calculate_diversity_penalty_def)
  from personalization_frame [OF h1 h2, of sample_env "''u1''" VNone]
  show ?thesis
  proof (elim exE conjE)
    fix out
    assume out: "apply_personalization sample_env ''u1'' sample_articles VNone [] = Inr out"
      and len: "length out = length sample_articles"
      and all: "\<forall>i<length sample_articles.
        (\<forall>k. k \<noteq> ''final_score'' \<and> k \<noteq> ''personalization_factors'' \<longrightarrow>
               map_of (out ! i) k = map_of (sample_articles ! i) k) \<and>
        (\<exists>base cb sb.
           py_get (sample_articles ! i) ''recommendation_score'' (VNum 0.5) = VNum base \<and>
           calculate_category_boost (py_get (sample_articles ! i) ''category'' (VStr ''general''))
             (get_user_category_preferences (db_category_counts sample_env ''u1'')) = Inr cb \<and>
           calculate_source_boost (py_get (sample_articles ! i) ''source'' (VStr [])) [] = Inr sb \<and>
           map_of (out ! i) ''final_score'' = Some (VNum (
              base * 0.6 + cb * 0.2
              + calculate_recency_boost (clk sample_env) (py_get (sample_articles ! i) ''published_at'' VNone) * 0.1
              + sb * 0.05
              + calculate_diversity_penalty (sample_articles ! i) (take i out) * 0.05)) \<and>
           map_of (out ! i) ''personalization_factors'' =
             Some (VDict
               [(''base_score'', VNum base),
                (''category_boost'', VNum cb),
                (''recency_boost'',
                   VNum (calculate_recency_boost (clk sample_env) (py_get (sample_articles ! i) ''published_at'' VNone))),
                (''source_boost'', VNum sb),
                (''diversity_penalty'',
                   VNum (calculate_diversity_penalty (sample_articles ! i) (take i out)))]))"
    note inst = all [rule_format, OF l0]
    note k = inst [THEN conjunct1]
    have t: "map_of (out ! 0) ''title'' = Some (VStr ''Chip makers rally'')"
      using k [rule_format, of "''title''"] by (simp add: a0)
    have n: "map_of (out ! 0) ''recommendation_score'' = None"
      using k [rule_format, of "''recommendation_score''"] by (simp add: a0)
    have v: "map_of (out ! 0) ''final_score'' = Some (VNum 0.635) \<and>
      map_of (out ! 0) ''personalization_factors'' =
        Some (VDict [(''base_score'', VNum 0.5), (''category_boost'', VNum 0.8),
                     (''recency_boost'', VNum 1), (''source_boost'', VNum 0.5),
                     (''diversity_penalty'', VNum 1)])"
      using inst [THEN conjunct2] unfolding bq cq sq r d by auto
    have l2: "length out = 2" using len by (simp add: sample_articles_def)
    have h2': "list_all scorable sample_articles" using h2 by (simp add: list_all_iff)
    from h1 h2' out l2 t n v show ?thesis by blast
  qed
qed

subsection \<open>Sorting and truncation\<close>









subsection \<open>Sign of the final score\<close>

lemma table_get_nonneg:
  assumes "\<forall>p\<in>set t. 0 \<le> snd p" and "0 \<le> (d::real)" and "table_get t k d = Inr x"
  shows "0 \<le> x"
proof (cases "map_of t k")
  case None
  with assms show ?thesis by (auto simp: table_get_def split: if_splits)
next
  case (Some v)
  then have "(k, v) \<in> set t" by (rule map_of_SomeD)
  with assms(1) have "0 \<le> v" by force
  with Some assms(3) show ?thesis by (auto simp: table_get_def split: if_splits)
qed

lemma set_update_cases:
  "p \<in> set (AList.update k v al) \<Longrightarrow> p = (k, v) \<or> p \<in> set al"
  by (induction al) (auto split: if_splits)

lemma bump_count_pos:
  assumes "\<forall>p\<in>set cs. 0 < snd p" and "p \<in> set (bump_count cs k)"
  shows "0 < snd p"
proof -
  from assms(2) have "p = (k, (case map_of cs k of None \<Rightarrow> 0 | Some c \<Rightarrow> c) + 1) \<or> p \<in> set cs"
    unfolding bump_count_def by (rule set_update_cases)
  moreover have "0 < (case map_of cs k of None \<Rightarrow> 0 | Some c \<Rightarrow> c) + 1"
  proof (cases "map_of cs k")
    case None
    then show ?thesis by simp
  next
    case (Some c)
    then have "(k, c) \<in> set cs" by (rule map_of_SomeD)
    with assms(1) have "0 < c" by force
    with Some show ?thesis by simp
  qed
  ultimately show ?thesis using assms(1) by auto
qed

lemma count_sources_step:
  assumes "count_sources cs (x # rest) = Inr out"
  shows "count_sources cs rest = Inr out \<or> (\<exists>s. count_sources (bump_count cs s) rest = Inr out)"
proof (cases "map_of x ''news_articles''")
  case None
  with assms show ?thesis by simp
next
  case (Some na)
  show ?thesis
  proof (cases na)
    case (VDict d)
    with assms Some show ?thesis
      by (simp add: Let_def split: if_splits) blast
  qed (use assms Some in \<open>simp_all split: if_splits\<close>)
qed

lemma count_sources_pos:
  "count_sources cs xs = Inr out \<Longrightarrow> \<forall>p\<in>set cs. 0 < snd p \<Longrightarrow> \<forall>p\<in>set out. 0 < snd p"
proof (induction xs arbitrary: cs)
  case Nil
  then show ?case by simp
next
  case (Cons x xs)
  from count_sources_step [OF Cons.prems(1)] show ?case
  proof
    assume "count_sources cs xs = Inr out"
    then show ?thesis using Cons.IH Cons.prems(2) by blast
  next
    assume "\<exists>s. count_sources (bump_count cs s) xs = Inr out"
    then obtain s where s: "count_sources (bump_count cs s) xs = Inr out" by blast
    have "\<forall>p\<in>set (bump_count cs s). 0 < snd p"
      using bump_count_pos [OF Cons.prems(2)] by blast
    with Cons.IH [OF s] show ?thesis by blast
  qed
qed

lemma source_preferences_nonneg:
  assumes "get_user_source_preferences ui = Inr sp"
  shows "\<forall>p\<in>set sp. 0 \<le> snd p"
proof -
  from assms obtain cs where cs: "count_sources [] ui = Inr cs"
    by (auto simp: get_user_source_preferences_def split: sum.splits)
  from count_sources_pos [OF cs] have pos: "\<forall>p\<in>set cs. 0 < snd p" by simp
  show ?thesis
  proof (cases "cs = []")
    case True
    with assms cs show ?thesis by (simp add: get_user_source_preferences_def)
  next
    case False
    with assms cs have sp: "sp = map (\<lambda>(source, count).
        (source, real_of_int count / real_of_int (Max (set (map snd cs))))) cs"
      by (simp add: get_user_source_preferences_def Let_def)
    from False have "Max (set (map snd cs)) \<in> set (map snd cs)"
      by (intro Max_in) auto
    with pos have "0 < Max (set (map snd cs))" by auto
    with pos show ?thesis unfolding sp by (auto simp: case_prod_beta)
  qed
qed

lemma category_preferences_nonneg:
  assumes "\<forall>counts. r = Inr counts \<longrightarrow> (\<forall>n\<in>set (map snd counts). 0 \<le> n)"
  shows "\<forall>p\<in>set (get_user_category_preferences r). 0 \<le> snd p"
proof (cases r)
  case (Inl e)
  then show ?thesis by (simp add: get_user_category_preferences_def)
next
  case (Inr counts)
  with assms have nn: "\<forall>n\<in>set (map snd counts). 0 \<le> n" by simp
  then have tot: "0 \<le> sum_list (map snd counts)" by (intro sum_list_nonneg) auto
  show ?thesis
  proof (cases "counts = []")
    case True
    with Inr show ?thesis
      by (simp add: get_user_category_preferences_def default_preferences_def)
  next
    case False
    show ?thesis
    proof (cases "sum_list (map snd counts) = 0")
      case True
      with Inr False show ?thesis by (simp add: get_user_category_preferences_def)
    next
      case nz: False
      with tot have "0 < sum_list (map snd counts)" by simp
      with nn Inr False nz show ?thesis
        by (auto simp: get_user_category_preferences_def Let_def case_prod_beta)
    qed
  qed
qed

lemma recency_boost_lower: "0.2 \<le> calculate_recency_boost c v"
  by (cases "(c, v)" rule: calculate_recency_boost.cases)
     (auto simp: recency_steps_def split: option.splits datetime.splits)

lemma category_boost_nonneg:
  assumes "\<forall>p\<in>set prefs. 0 \<le> snd p" and "calculate_category_boost c prefs = Inr cb"
  shows "0 \<le> cb"
proof -
  from assms(2) obtain w u where w: "table_get category_weights c 0.5 = Inr w"
    and u: "table_get prefs c 0.5 = Inr u" and cb: "cb = w * u"
    by (auto simp: calculate_category_boost_def split: sum.splits)
  have "0 \<le> w" using table_get_nonneg [OF _ _ w] by (simp add: category_weights_def)
  moreover have "0 \<le> u" using table_get_nonneg [OF assms(1) _ u] by simp
  ultimately show ?thesis by (simp add: cb)
qed

text \<open>
  C9, amended. For articles whose relevance score is absent or not negative, and
  category counts that are not negative, every \<^verbatim>\<open>final_score\<close> is at least 0; the five
  weights 0.6, 0.2, 0.1, 0.05, 0.05 sum to 1. (A negative relevance score can make the
  final score negative, see the counterexample below.)
\<close>

theorem final_score_nonneg:
  assumes "get_user_source_preferences ui = Inr sp" and "\<forall>a\<in>set ml. scorable a"
    and "\<forall>a\<in>set ml. 0 \<le> num_of (py_get a ''recommendation_score'' (VNum 0.5))"
    and "\<forall>counts. db_category_counts env uid = Inr counts \<longrightarrow> (\<forall>n\<in>set (map snd counts). 0 \<le> n)"
  shows "\<exists>out. apply_personalization env uid ml profile ui = Inr out \<and>
           (\<forall>i<length out. \<exists>f. map_of (out ! i) ''final_score'' = Some (VNum f) \<and> 0 \<le> f) \<and>
           weighted_score 1 1 1 1 1 = 1"
proof -
  from apply_personalization_total [OF assms(1,2)] obtain out
    where out: "apply_personalization env uid ml profile ui = Inr out" by blast
  from apply_personalization_Inr [OF out] assms(1)
  have len: "length out = length ml"
    and step: "\<forall>i<length ml.
        personalize_article (clk env) (get_user_category_preferences (db_category_counts env uid)) sp
          (take i out) (ml ! i) = Inr (out ! i)"
    by auto
  have "\<exists>f. map_of (out ! i) ''final_score'' = Some (VNum f) \<and> 0 \<le> f" if i: "i < length out" for i
  proof -
    from step i len have "personalize_article (clk env)
        (get_user_category_preferences (db_category_counts env uid)) sp (take i out) (ml ! i)
          = Inr (out ! i)" by simp
    from personalize_article_Inr [OF this] obtain base cb sb where
      b: "py_get (ml ! i) ''recommendation_score'' (VNum 0.5) = VNum base" and
      cb: "calculate_category_boost (py_get (ml ! i) ''category'' (VStr ''general''))
          (get_user_category_preferences (db_category_counts env uid)) = Inr cb" and
      sb: "calculate_source_boost (py_get (ml ! i) ''source'' (VStr [])) sp = Inr sb" and
      o: "map_of (out ! i) ''final_score'' = Some (VNum (weighted_score base cb
                    (calculate_recency_boost (clk env) (py_get (ml ! i) ''published_at'' VNone)) sb
                    (calculate_diversity_penalty (ml ! i) (take i out))))"
      by (auto simp: map_of_py_set)
    from i len have "ml ! i \<in> set ml" by simp
    with assms(3) b have b0: "0 \<le> base" by force
    have cb0: "0 \<le> cb"
      using category_boost_nonneg [OF category_preferences_nonneg [OF assms(4)] cb] .
    have sb0: "0 \<le> sb"
      using table_get_nonneg [OF source_preferences_nonneg [OF assms(1)], of "0.5"] sb
      by (simp add: calculate_source_boost_def)
    have r0: "0 \<le> calculate_recency_boost (clk env) (py_get (ml ! i) ''published_at'' VNone)"
      using recency_boost_lower [of "clk env" "py_get (ml ! i) ''published_at'' VNone"] by simp
    have d0: "0 \<le> calculate_diversity_penalty (ml ! i) (take i out)"
      using diversity_penalty_bounds [of "ml ! i" "take i out"] by simp
    have "0 \<le> weighted_score base cb
                    (calculate_recency_boost (clk env) (py_get (ml ! i) ''published_at'' VNone)) sb
                    (calculate_diversity_penalty (ml ! i) (take i out))"
      unfolding weighted_score_def using b0 cb0 sb0 r0 d0 by simp
    with o show ?thesis by blast
  qed
  moreover have "weighted_score 1 1 1 1 1 = 1" by (simp add: weighted_score_def)
  ultimately show ?thesis using out by blast
qed

theorem final_score_nonneg_witness:
  "get_user_source_preferences [] = Inr [] \<and> list_all scorable sample_articles \<and>
   list_all (\<lambda>a. 0 \<le> num_of (py_get a ''recommendation_score'' (VNum 0.5))) sample_articles \<and>
   db_category_counts sample_env ''u1'' = Inr [] \<and>
   (\<exists>out. apply_personalization sample_env ''u1'' sample_articles VNone [] = Inr out \<and>
      (\<forall>i<length out. \<exists>f. map_of (out ! i) ''final_score'' = Some (VNum f) \<and> 0 \<le> f))"
proof -
  have h1: "get_user_source_preferences [] = Inr []"
    by (simp add: get_user_source_preferences_def)
  have h2: "\<forall>a\<in>set sample_articles. scorable a"
    by (simp add: sample_articles_def scorable_def py_get_def)
  have h3: "\<forall>a\<in>set sample_articles. 0 \<le> num_of (py_get a ''recommendation_score'' (VNum 0.5))"
    by (simp add: sample_articles_def py_get_def)
  have h4: "\<forall>counts. db_category_counts sample_env ''u1'' = Inr counts \<longrightarrow>
      (\<forall>n\<in>set (map snd counts). 0 \<le> n)"
    by (simp add: sample_env_def)
  have h5: "db_category_counts sample_env ''u1'' = Inr []" by (simp add: sample_env_def)
  from final_score_nonneg [OF h1 h2 h3 h4, of VNone]
  have "\<exists>out. apply_personalization sample_env ''u1'' sample_articles VNone [] = Inr out \<and>
      (\<forall>i<length out. \<exists>f. map_of (out ! i) ''final_score'' = Some (VNum f) \<and> 0 \<le> f)"
    by blast
  with h1 h2 h3 h5 show ?thesis by (simp add: list_all_iff)
qed

text \<open>
  A relevance score of -1 for a user without history gives the final score -0.379.
\<close>

theorem final_score_negative_counterexample:
  "apply_personalization sample_env ''u1'' [[(''recommendation_score'', VNum (- 1))]] VNone [] =
     Inr [[(''recommendation_score'', VNum (- 1)), (''final_score'', VNum (- 0.379)),
           (''personalization_factors'',
              VDict [(''base_score'', VNum (- 1)), (''category_boost'', VNum 0.48),
                     (''recency_boost'', VNum 0.5), (''source_boost'', VNum 0.5),
                     (''diversity_penalty'', VNum 1)])]]"
  by (simp add: apply_personalization_def get_user_source_preferences_def sample_env_def
      get_user_category_preferences_def default_preferences_def personalize_article_def
      py_get_def py_set_def calculate_category_boost_def calculate_source_boost_def
      table_get_def category_weights_def calculate_diversity_penalty_def weighted_score_def Let_def)

subsection \<open>A failing relevance model\<close>

lemma personalized_model_raises:
  assumes "\<forall>ui. db_get_user_interactions env uid 100 = Inr ui \<longrightarrow>
             (\<exists>e. ml_get_personalized_recommendations env articles (Some ui)
                     (int (length articles)) = Inl e)"
  shows "get_personalized_recommendations env uid articles top_k = py_slice_to articles top_k"
proof (cases "articles = []")
  case True
  then show ?thesis
    by (simp add: get_personalized_recommendations_def personalized_try_def py_slice_to_def)
next
  case False
  have "\<exists>e. personalized_try env uid articles top_k = Inl e"
  proof (cases "db_get_user_profile env uid")
    case (Inl e)
    with False show ?thesis by (simp add: personalized_try_def)
  next
    case p: (Inr profile)
    show ?thesis
    proof (cases "db_get_user_interactions env uid 100")
      case (Inl e)
      with False p show ?thesis by (simp add: personalized_try_def)
    next
      case (Inr ui)
      with assms obtain e where
        "ml_get_personalized_recommendations env articles (Some ui) (int (length articles)) = Inl e"
        by blast
      with False p Inr show ?thesis by (simp add: personalized_try_def)
    qed
  qed
  then show ?thesis by (auto simp: get_personalized_recommendations_def)
qed

lemma trending_model_raises:
  assumes "db_get_recent_news env (limit * 2) VNone = Inr recent"
    and "ml_get_personalized_recommendations env recent None limit = Inl e"
  shows "get_trending_recommendations env limit = []"
  using assms by (simp add: get_trending_recommendations_def trending_try_def)

lemma category_model_raises:
  assumes "db_get_recent_news env (limit * 2) category = Inr candidates"
    and "ml_get_personalized_recommendations env candidates None limit = Inl e"
  shows "get_category_recommendations env category None limit = []"
  using assms by (simp add: get_category_recommendations_def category_try_def)

lemma category_delegates:
  assumes "db_get_recent_news env (limit * 2) category = Inr candidates" and "u \<noteq> []"
  shows "get_category_recommendations env category (Some u) limit =
           get_personalized_recommendations env u candidates limit"
  using assms
  by (simp add: get_category_recommendations_def category_try_def
      get_personalized_recommendations_def personalized_try_def)

lemma personalized_no_scores:
  assumes "articles \<noteq> []"
    and "db_get_user_profile env uid = Inr profile"
    and "db_get_user_interactions env uid 100 = Inr ui"
    and "get_user_source_preferences ui = Inr sp"
    and "ml_get_personalized_recommendations env articles (Some ui) (int (length articles)) = Inr []"
    and "db_log_recommendations env uid [] [] = Inr ()"
  shows "get_personalized_recommendations env uid articles top_k = []"
  using assms
  by (simp add: get_personalized_recommendations_def personalized_try_def
      apply_personalization_def sort_by_score_desc_def py_slice_to_def)

lemma trending_no_scores:
  assumes "db_get_recent_news env (limit * 2) VNone = Inr recent"
    and "ml_get_personalized_recommendations env recent None limit = Inr []"
  shows "get_trending_recommendations env limit = []"
  using assms
  by (simp add: get_trending_recommendations_def trending_try_def sort_by_score_desc_def
      py_slice_to_def)

lemma category_no_scores:
  assumes "db_get_recent_news env (limit * 2) category = Inr candidates"
    and "ml_get_personalized_recommendations env candidates None limit = Inr []"
  shows "get_category_recommendations env category None limit = []"
  using assms by (simp add: get_category_recommendations_def category_try_def)

text \<open>
  C4, amended. When the call to the relevance model that a ranker makes raises, the
  personalized ranker returns \<^verbatim>\<open>articles[:top_k]\<close>: for \<open>top_k \<ge> 0\<close> the first
  \<open>min (len articles) top_k\<close> candidates in their order; so does the category ranker
  for a present user, to which it delegates. The trending ranker and the category
  ranker without a user return the empty list. When the model returns no scores
  without raising, no ranker falls back: the trending ranker and the category ranker
  without a user return the empty list, and so does the personalized ranker when the
  profile, the interactions, the source preferences and the logging call succeed.
\<close>

theorem model_failure_fallback:
  "((\<forall>ui. db_get_user_interactions env uid 100 = Inr ui \<longrightarrow>
       (\<exists>e. ml_get_personalized_recommendations env articles (Some ui)
               (int (length articles)) = Inl e)) \<longrightarrow>
      get_personalized_recommendations env uid articles top_k = py_slice_to articles top_k \<and>
      (0 \<le> top_k \<longrightarrow>
         get_personalized_recommendations env uid articles top_k = take (nat top_k) articles \<and>
         length (get_personalized_recommendations env uid articles top_k)
           = min (length articles) (nat top_k))) \<and>
   (u \<noteq> [] \<and> db_get_recent_news env (limit * 2) category = Inr candidates \<and>
    (\<forall>ui. db_get_user_interactions env u 100 = Inr ui \<longrightarrow>
       (\<exists>e. ml_get_personalized_recommendations env candidates (Some ui)
               (int (length candidates)) = Inl e)) \<longrightarrow>
      get_category_recommendations env category (Some u) limit = py_slice_to candidates limit) \<and>
   (db_get_recent_news env (limit * 2) VNone = Inr recent \<and>
    ml_get_personalized_recommendations env recent None limit = Inl e1 \<longrightarrow>
      get_trending_recommendations env limit = []) \<and>
   (db_get_recent_news env (limit * 2) category = Inr candidates \<and>
    ml_get_personalized_recommendations env candidates None limit = Inl e2 \<longrightarrow>
      get_category_recommendations env category None limit = []) \<and>
   (articles \<noteq> [] \<and> db_get_user_profile env uid = Inr profile \<and>
    db_get_user_interactions env uid 100 = Inr history \<and>
    get_user_source_preferences history = Inr sp \<and>
    ml_get_personalized_recommendations env articles (Some history) (int (length articles))
      = Inr [] \<and>
    db_log_recommendations env uid [] [] = Inr () \<longrightarrow>
      get_personalized_recommendations env uid articles top_k = []) \<and>
   (db_get_recent_news env (limit * 2) VNone = Inr recent \<and>
    ml_get_personalized_recommendations env recent None limit = Inr [] \<longrightarrow>
      get_trending_recommendations env limit = []) \<and>
   (db_get_recent_news env (limit * 2) category = Inr candidates \<and>
    ml_get_personalized_recommendations env candidates None limit = Inr [] \<longrightarrow>
      get_category_recommendations env category None limit = [])"
proof (intro conjI impI)
  assume h: "\<forall>ui. db_get_user_interactions env uid 100 = Inr ui \<longrightarrow>
       (\<exists>e. ml_get_personalized_recommendations env articles (Some ui)
               (int (length articles)) = Inl e)"
  show p: "get_personalized_recommendations env uid articles top_k = py_slice_to articles top_k"
    using h by (rule personalized_model_raises)
  assume k: "0 \<le> top_k"
  show "get_personalized_recommendations env uid articles top_k = take (nat top_k) articles"
    using p k by (simp add: py_slice_to_def)
  show "length (get_personalized_recommendations env uid articles top_k)
           = min (length articles) (nat top_k)"
    using p k by (simp add: py_slice_to_def)
next
  assume h: "u \<noteq> [] \<and> db_get_recent_news env (limit * 2) category = Inr candidates \<and>
    (\<forall>ui. db_get_user_interactions env u 100 = Inr ui \<longrightarrow>
       (\<exists>e. ml_get_personalized_recommendations env candidates (Some ui)
               (int (length candidates)) = Inl e))"
  then have "get_personalized_recommendations env u candidates limit = py_slice_to candidates limit"
    by (intro personalized_model_raises) blast
  with h show "get_category_recommendations env category (Some u) limit
                 = py_slice_to candidates limit"
    by (simp add: category_delegates)
next
  assume "db_get_recent_news env (limit * 2) VNone = Inr recent \<and>
    ml_get_personalized_recommendations env recent None limit = Inl e1"
  then show "get_trending_recommendations env limit = []"
    using trending_model_raises by blast
next
  assume "db_get_recent_news env (limit * 2) category = Inr candidates \<and>
    ml_get_personalized_recommendations env candidates None limit = Inl e2"
  then show "get_category_recommendations env category None limit = []"
    using category_model_raises by blast
next
  assume "articles \<noteq> [] \<and> db_get_user_profile env uid = Inr profile \<and>
    db_get_user_interactions env uid 100 = Inr history \<and>
    get_user_source_preferences history = Inr sp \<and>
    ml_get_personalized_recommendations env articles (Some history) (int (length articles))
      = Inr [] \<and>
    db_log_recommendations env uid [] [] = Inr ()"
  then show "get_personalized_recommendations env uid articles top_k = []"
    using personalized_no_scores [of articles env uid profile history sp top_k] by blast
next
  assume "db_get_recent_news env (limit * 2) VNone = Inr recent \<and>
    ml_get_personalized_recommendations env recent None limit = Inr []"
  then show "get_trending_recommendations env limit = []"
    using trending_no_scores by blast
next
  assume "db_get_recent_news env (limit * 2) category = Inr candidates \<and>
    ml_get_personalized_recommendations env candidates None limit = Inr []"
  then show "get_category_recommendations env category None limit = []"
    using category_no_scores by blast
qed

theorem model_failure_fallback_witness:
  "ml_get_personalized_recommendations failing_model_env sample_articles (Some [])
     (int (length sample_articles)) = Inl CollaboratorError \<and>
   get_personalized_recommendations failing_model_env ''u1'' sample_articles 1
     = [sample_articles ! 0] \<and>
   db_get_recent_news failing_model_env (20 * 2) VNone = Inr sample_articles \<and>
   ml_get_personalized_recommendations failing_model_env sample_articles None 20
     = Inl CollaboratorError \<and>
   get_trending_recommendations failing_model_env 20 = []"
proof -
  have m: "ml_get_personalized_recommendations failing_model_env sample_articles (Some [])
     (int (length sample_articles)) = Inl CollaboratorError"
    by (simp add: failing_model_env_def)
  have h1: "\<forall>ui. db_get_user_interactions failing_model_env ''u1'' 100 = Inr ui \<longrightarrow>
       (\<exists>e. ml_get_personalized_recommendations failing_model_env sample_articles (Some ui)
               (int (length sample_articles)) = Inl e)"
    by (simp add: failing_model_env_def)
  have h2: "db_get_recent_news failing_model_env (20 * 2) VNone = Inr sample_articles"
    by (simp add: failing_model_env_def sample_env_def)
  have h3: "ml_get_personalized_recommendations failing_model_env sample_articles None 20
     = Inl CollaboratorError"
    by (simp add: failing_model_env_def)
  note t = model_failure_fallback [of failing_model_env "''u1''" sample_articles 1
      "[]" 20 VNone sample_articles sample_articles CollaboratorError]
  from t h1 have p: "get_personalized_recommendations failing_model_env ''u1'' sample_articles 1
          = py_slice_to sample_articles 1" by blast
  from t h2 h3 have tr: "get_trending_recommendations failing_model_env 20 = []" by blast
  from p have "get_personalized_recommendations failing_model_env ''u1'' sample_articles 1
     = [sample_articles ! 0]"
    by (simp add: py_slice_to_def sample_articles_def)
  with m h2 h3 tr show ?thesis by simp
qed

text \<open>
  With two candidate articles, the trending ranker returns nothing when the model
  raises, and the personalized ranker returns nothing when the model returns no
  scores; the candidates cut to 20 would be both articles.
\<close>

theorem fallback_counterexample:
  "db_get_recent_news failing_model_env (20 * 2) VNone = Inr sample_articles \<and>
   ml_get_personalized_recommendations failing_model_env sample_articles None 20
     = Inl CollaboratorError \<and>
   get_trending_recommendations failing_model_env 20 = [] \<and>
   ml_get_personalized_recommendations empty_model_env sample_articles (Some [])
     (int (length sample_articles)) = Inr [] \<and>
   get_personalized_recommendations empty_model_env ''u1'' sample_articles 20 = [] \<and>
   py_slice_to sample_articles 20 = sample_articles \<and>
   sample_articles \<noteq> []"
proof (intro conjI)
  show "db_get_recent_news failing_model_env (20 * 2) VNone = Inr sample_articles"
    by (simp add: failing_model_env_def sample_env_def)
  show "ml_get_personalized_recommendations failing_model_env sample_articles None 20
     = Inl CollaboratorError"
    by (simp add: failing_model_env_def)
  show "get_trending_recommendations failing_model_env 20 = []"
    by (simp add: failing_model_env_def sample_env_def get_trending_recommendations_def
        trending_try_def sample_articles_def)
  show "ml_get_personalized_recommendations empty_model_env sample_articles (Some [])
     (int (length sample_articles)) = Inr []"
    by (simp add: empty_model_env_def)
  show "get_personalized_recommendations empty_model_env ''u1'' sample_articles 20 = []"
    by (simp add: empty_model_env_def sample_env_def get_personalized_recommendations_def
        personalized_try_def apply_personalization_def get_user_source_preferences_def
        sort_by_score_desc_def py_slice_to_def sample_articles_def)
  show "py_slice_to sample_articles 20 = sample_articles"
    by (simp add: py_slice_to_def sample_articles_def)
  show "sample_articles \<noteq> []" by (simp add: sample_articles_def)
qed

subsection \<open>Cold start\<close>

text \<open>
  C5. When the query of the interaction history fails, or yields no category counts
  (\<^verbatim>\<open>SupabaseClient.get_user_category_preferences\<close> catches every exception and
  reports \<^verbatim>\<open>{}\<close>), the profile builder returns the cold-start table (technology 0.8,
  business 0.7, general 0.6, health 0.5, science 0.5), and the category boost of a
  technology article is \<open>1.0 * 0.8 = 0.8\<close>. The builder returns a profile in every
  case; it never raises.
\<close>

theorem cold_start_profile:
  "get_user_category_preferences (Inr (db_get_user_category_preferences (Inl e)))
     = default_preferences \<and>
   (db_get_user_category_preferences q = [] \<longrightarrow>
      get_user_category_preferences (Inr (db_get_user_category_preferences q))
        = default_preferences \<and>
      calculate_category_boost (VStr ''technology'')
        (get_user_category_preferences (Inr (db_get_user_category_preferences q))) = Inr 0.8) \<and>
   default_preferences =
     [(VStr ''technology'', 0.8), (VStr ''business'', 0.7), (VStr ''general'', 0.6),
      (VStr ''health'', 0.5), (VStr ''science'', 0.5)]"
proof (intro conjI impI)
  show "get_user_category_preferences (Inr (db_get_user_category_preferences (Inl e)))
     = default_preferences"
    by (simp add: get_user_category_preferences_def db_get_user_category_preferences_def)
  show "default_preferences =
     [(VStr ''technology'', 0.8), (VStr ''business'', 0.7), (VStr ''general'', 0.6),
      (VStr ''health'', 0.5), (VStr ''science'', 0.5)]"
    by (simp add: default_preferences_def)
  assume q: "db_get_user_category_preferences q = []"
  show d: "get_user_category_preferences (Inr (db_get_user_category_preferences q))
        = default_preferences"
    by (simp add: q get_user_category_preferences_def)
  show "calculate_category_boost (VStr ''technology'')
        (get_user_category_preferences (Inr (db_get_user_category_preferences q))) = Inr 0.8"
    unfolding d
    by (simp add: calculate_category_boost_def table_get_def category_weights_def
        default_preferences_def)
qed

theorem cold_start_profile_witness:
  "db_get_user_category_preferences (Inr []) = [] \<and>
   db_get_user_category_preferences (Inr [[(''news_articles'', VNone)]]) = [] \<and>
   get_user_category_preferences
     (Inr (db_get_user_category_preferences (Inr [[(''news_articles'', VNone)]])))
     = default_preferences \<and>
   calculate_category_boost (VStr ''technology'')
     (get_user_category_preferences (Inr (db_get_user_category_preferences (Inr []))))
     = Inr 0.8"
proof -
  have h1: "db_get_user_category_preferences (Inr []) = []"
    by (simp add: db_get_user_category_preferences_def)
  have h2: "db_get_user_category_preferences (Inr [[(''news_articles'', VNone)]]) = []"
    by (simp add: db_get_user_category_preferences_def py_get_def)
  from cold_start_profile [of CollaboratorError "Inr []"] h1
  have a: "calculate_category_boost (VStr ''technology'')
     (get_user_category_preferences (Inr (db_get_user_category_preferences (Inr []))))
     = Inr 0.8" by blast
  from cold_start_profile [of CollaboratorError "Inr [[(''news_articles'', VNone)]]"] h2
  have b: "get_user_category_preferences
     (Inr (db_get_user_category_preferences (Inr [[(''news_articles'', VNone)]])))
     = default_preferences" by blast
  from h1 h2 a b show ?thesis by blast
qed

text \<open>
  The builder's own handler would return the empty profile (neutral affinity 0.5 for
  every category); the database layer never raises into it.
\<close>

lemma category_preferences_handler:
  "get_user_category_preferences (Inl e) = [] \<and>
   calculate_category_boost (VStr ''technology'') (get_user_category_preferences (Inl e))
     = Inr 0.5"
  by (simp add: get_user_category_preferences_def calculate_category_boost_def table_get_def
      category_weights_def)

subsection \<open>Recency\<close>

text \<open>
  C8, amended. An unparseable timestamp gives 0.5. For a timestamp that parses to a
  datetime without offset, the boost is the step function of the age in hours: at most
  1 gives 1.0, at most 6 gives 0.8, at most 24 gives 0.6, at most 72 gives 0.4, more
  gives 0.2; so 30 minutes give 1.0, 30 hours give 0.4 and 100 hours give 0.2.
\<close>

theorem recency_boost_steps:
  "(fromisoformat c (replace_Z s) = None \<longrightarrow> calculate_recency_boost c (VStr s) = 0.5) \<and>
   (fromisoformat c (replace_Z s) = Some (Naive t) \<longrightarrow>
      ((utcnow c - t) / 3600 \<le> 1 \<longrightarrow> calculate_recency_boost c (VStr s) = 1.0) \<and>
      (1 < (utcnow c - t) / 3600 \<and> (utcnow c - t) / 3600 \<le> 6 \<longrightarrow>
         calculate_recency_boost c (VStr s) = 0.8) \<and>
      (6 < (utcnow c - t) / 3600 \<and> (utcnow c - t) / 3600 \<le> 24 \<longrightarrow>
         calculate_recency_boost c (VStr s) = 0.6) \<and>
      (24 < (utcnow c - t) / 3600 \<and> (utcnow c - t) / 3600 \<le> 72 \<longrightarrow>
         calculate_recency_boost c (VStr s) = 0.4) \<and>
      (72 < (utcnow c - t) / 3600 \<longrightarrow> calculate_recency_boost c (VStr s) = 0.2) \<and>
      (utcnow c - t = 30 * 60 \<longrightarrow> calculate_recency_boost c (VStr s) = 1.0) \<and>
      (utcnow c - t = 30 * 3600 \<longrightarrow> calculate_recency_boost c (VStr s) = 0.4) \<and>
      (utcnow c - t = 100 * 3600 \<longrightarrow> calculate_recency_boost c (VStr s) = 0.2))"
  by (simp add: recency_steps_def)

theorem recency_boost_steps_witness:
  "fromisoformat sample_clock (replace_Z ''2024-12-17T10:00:00'') = Some (Naive 1734429600) \<and>
   utcnow sample_clock - 1734429600 = 30 * 60 \<and>
   calculate_recency_boost sample_clock (VStr ''2024-12-17T10:00:00'') = 1.0"
proof -
  have h: "fromisoformat sample_clock (replace_Z ''2024-12-17T10:00:00'') = Some (Naive 1734429600)"
    by (simp add: sample_clock_def replace_Z_def)
  have d: "utcnow sample_clock - 1734429600 = 30 * 60" by (simp add: sample_clock_def)
  from recency_boost_steps [of sample_clock "''2024-12-17T10:00:00''" 1734429600] h d
  show ?thesis by simp
qed

text \<open>
  An article that is 30 hours old gets 0.4, not 0.6.
\<close>

theorem recency_boost_30h_counterexample:
  "fromisoformat (sample_clock\<lparr>utcnow := 1734537600\<rparr>) (replace_Z ''2024-12-17T10:00:00'')
     = Some (Naive 1734429600) \<and>
   (utcnow (sample_clock\<lparr>utcnow := 1734537600\<rparr>) - 1734429600) / 3600 = 30 \<and>
   calculate_recency_boost (sample_clock\<lparr>utcnow := 1734537600\<rparr>)
     (VStr ''2024-12-17T10:00:00'') = 0.4"
  by (simp add: sample_clock_def replace_Z_def recency_steps_def)

text \<open>
  A timestamp with the suffix \<^verbatim>\<open>Z\<close> parses, after the replacement, to a datetime with
  offset; subtracting it from the naive \<^verbatim>\<open>utcnow()\<close> raises, and the handler returns
  0.5 whatever the age (here 30 minutes).
\<close>

lemma recency_boost_aware_timestamp:
  "replace_Z ''2024-12-17T10:00:00Z'' = ''2024-12-17T10:00:00+00:00'' \<and>
   fromisoformat sample_clock ''2024-12-17T10:00:00+00:00'' = Some (Aware 1734429600) \<and>
   (utcnow sample_clock - 1734429600) / 3600 = 0.5 \<and>
   calculate_recency_boost sample_clock (VStr ''2024-12-17T10:00:00Z'') = 0.5"
  by (simp add: sample_clock_def replace_Z_def recency_steps_def)

subsection \<open>Deduplication\<close>

lemma first_occurrences_Cons:
  "{j. Suc j \<in> first_occurrences seen (x # xs)} = first_occurrences (insert (title_key x) seen) xs"
  by (auto simp: first_occurrences_def All_less_Suc2)

lemma zero_first_occurrence:
  "0 \<in> first_occurrences seen (x # xs) \<longleftrightarrow> title_key x \<notin> seen"
  by (simp add: first_occurrences_def)

lemma nths_first_occurrences_Cons:
  "nths (x # xs) (first_occurrences seen (x # xs)) =
     (if title_key x \<notin> seen then [x] else []) @
     nths xs (first_occurrences (insert (title_key x) seen) xs)"
  by (simp add: nths_Cons first_occurrences_Cons zero_first_occurrence)

lemma remove_duplicates_loop_nths:
  "\<forall>a\<in>set xs. has_title a \<Longrightarrow>
     remove_duplicates_loop seen acc xs = Inr (acc @ nths xs (first_occurrences seen xs))"
proof (induction xs arbitrary: seen acc)
  case Nil
  then show ?case by simp
next
  case (Cons x xs)
  from Cons.prems obtain t where t: "map_of x ''title'' = Some (VStr t)"
    by (auto simp: has_title_def)
  then have k: "title_key x = py_strip (py_lower t)" by (simp add: title_key_def)
  from Cons.prems have rest: "\<forall>a\<in>set xs. has_title a" by simp
  show ?case
  proof (cases "title_key x \<in> seen")
    case True
    then have "insert (title_key x) seen = seen" by auto
    with True t k Cons.IH [OF rest, of seen acc] show ?thesis
      by (simp add: nths_first_occurrences_Cons)
  next
    case False
    with t k Cons.IH [OF rest, of "insert (title_key x) seen" "acc @ [x]"] show ?thesis
      by (simp add: nths_first_occurrences_Cons)
  qed
qed

lemma first_occurrences_keys:
  "distinct (map title_key (nths xs (first_occurrences seen xs))) \<and>
   title_key ` set (nths xs (first_occurrences seen xs)) = title_key ` set xs - seen"
proof (induction xs arbitrary: seen)
  case Nil
  then show ?case by simp
next
  case (Cons x xs)
  let ?r = "nths xs (first_occurrences (insert (title_key x) seen) xs)"
  from Cons.IH [of "insert (title_key x) seen"]
  have d: "distinct (map title_key ?r)"
    and s: "title_key ` set ?r = title_key ` set xs - insert (title_key x) seen" by simp_all
  from s have nx: "title_key x \<notin> title_key ` set ?r" by blast
  show ?case
  proof (cases "title_key x \<in> seen")
    case True
    with d s show ?thesis by (auto simp: nths_first_occurrences_Cons)
  next
    case False
    with d s nx show ?thesis by (auto simp: nths_first_occurrences_Cons)
  qed
qed

text \<open>
  C6. For articles that each carry a string title, the deduplicator raises nothing and
  returns exactly the articles at the positions whose normalized title (lower-cased,
  then stripped) occurs at no earlier position, in input order: a subsequence of the
  input with pairwise different normalized titles, in which every normalized title of
  the input is represented. The empty input gives the empty output.
\<close>

theorem remove_duplicates_first_occurrences:
  assumes "\<forall>a\<in>set articles. has_title a"
  shows "\<exists>out. remove_duplicates articles = Inr out \<and>
           out = nths articles (first_occurrences {} articles) \<and>
           subseq out articles \<and>
           distinct (map title_key out) \<and>
           title_key ` set out = title_key ` set articles \<and>
           remove_duplicates [] = Inr []"
proof -
  let ?out = "nths articles (first_occurrences {} articles)"
  have r: "remove_duplicates articles = Inr ?out"
    using remove_duplicates_loop_nths [OF assms, of "{}" "[]"]
    by (simp add: remove_duplicates_def)
  have sub: "subseq ?out articles" by (auto simp: subseq_conv_nths)
  have e: "remove_duplicates [] = Inr []" by (simp add: remove_duplicates_def)
  from r sub e first_occurrences_keys [of articles "{}"] show ?thesis by simp
qed

theorem remove_duplicates_first_occurrences_witness:
  "list_all has_title sample_feed \<and>
   remove_duplicates sample_feed = Inr [sample_feed ! 0, sample_feed ! 1] \<and>
   (\<exists>out. remove_duplicates sample_feed = Inr out \<and> subseq out sample_feed \<and>
      distinct (map title_key out) \<and> title_key ` set out = title_key ` set sample_feed)"
proof -
  have h: "\<forall>a\<in>set sample_feed. has_title a"
    by (simp add: sample_feed_def has_title_def)
  have v: "remove_duplicates sample_feed = Inr [sample_feed ! 0, sample_feed ! 1]"
    by code_simp
  from remove_duplicates_first_occurrences [OF h]
  have "\<exists>out. remove_duplicates sample_feed = Inr out \<and> subseq out sample_feed \<and>
      distinct (map title_key out) \<and> title_key ` set out = title_key ` set sample_feed"
    by blast
  with h v show ?thesis by (simp add: list_all_iff)
qed

subsection \<open>Category affinity\<close>

lemma count_categories_step:
  assumes "count_categories cs (x # rest) = Inr out"
  shows "count_categories cs rest = Inr out \<or>
         (\<exists>s. count_categories (bump_count cs s) rest = Inr out)"
proof (cases "py_get x ''news_articles'' VNone")
  case (VDict d)
  with assms show ?thesis
    by (simp add: Let_def split: if_splits) blast
qed (use assms in \<open>simp_all add: Let_def split: if_splits\<close>)

lemma bump_count_distinct:
  "distinct (map fst cs) \<Longrightarrow> distinct (map fst (bump_count cs k))"
  by (simp add: bump_count_def distinct_update)

lemma count_categories_invariant:
  "count_categories cs xs = Inr out \<Longrightarrow> distinct (map fst cs) \<Longrightarrow> \<forall>p\<in>set cs. 0 < snd p \<Longrightarrow>
     distinct (map fst out) \<and> (\<forall>p\<in>set out. 0 < snd p)"
proof (induction xs arbitrary: cs)
  case Nil
  then show ?case by simp
next
  case (Cons x xs)
  from count_categories_step [OF Cons.prems(1)] show ?case
  proof
    assume "count_categories cs xs = Inr out"
    then show ?thesis using Cons.IH Cons.prems(2,3) by blast
  next
    assume "\<exists>s. count_categories (bump_count cs s) xs = Inr out"
    then obtain s where s: "count_categories (bump_count cs s) xs = Inr out" by blast
    have "\<forall>p\<in>set (bump_count cs s). 0 < snd p"
      using bump_count_pos [OF Cons.prems(3)] by blast
    with Cons.IH [OF s bump_count_distinct [OF Cons.prems(2)]] show ?thesis by blast
  qed
qed

lemma db_category_counts_invariant:
  "distinct (map fst (db_get_user_category_preferences q)) \<and>
   (\<forall>p\<in>set (db_get_user_category_preferences q). 0 < snd p)"
proof (cases q)
  case (Inl e)
  then show ?thesis by (simp add: db_get_user_category_preferences_def)
next
  case (Inr data)
  show ?thesis
  proof (cases "count_categories [] data")
    case (Inl e)
    with Inr show ?thesis by (simp add: db_get_user_category_preferences_def)
  next
    case r: (Inr counts)
    from count_categories_invariant [OF r] Inr r show ?thesis
      by (simp add: db_get_user_category_preferences_def)
  qed
qed

lemma sum_list_pos_int:
  "xs \<noteq> [] \<Longrightarrow> \<forall>n\<in>set xs. 0 < (n::int) \<Longrightarrow> 0 < sum_list xs"
  by (induction xs) (auto simp: add_pos_nonneg sum_list_nonneg less_imp_le)

lemma category_preferences_lookup:
  assumes "distinct (map fst counts)" and "sum_list (map snd counts) \<noteq> 0"
    and "(c, n) \<in> set counts"
  shows "map_of (get_user_category_preferences (Inr counts)) c =
           Some (min (real_of_int n / real_of_int (sum_list (map snd counts)) * 2) 1.0)"
proof -
  let ?f = "\<lambda>count. min (real_of_int count / real_of_int (sum_list (map snd counts)) * 2) 1.0"
  from assms(3) have ne: "counts \<noteq> []" by auto
  have "get_user_category_preferences (Inr counts) = map (\<lambda>(k, v). (k, ?f v)) counts"
    using ne assms(2) by (simp add: get_user_category_preferences_def Let_def)
  moreover have "map_of counts c = Some n"
    using assms(1,3) by (rule map_of_is_SomeI)
  ultimately show ?thesis by (simp add: map_of_map)
qed

text \<open>
  C7, amended. When the interaction history produces a non-empty map of category
  counts, the total is positive and the affinity of every observed category is
  \<open>min (count / total * 2) 1.0\<close>: twice the share of the category, capped at 1.0. A
  category with at least half of the interactions has affinity exactly 1.0; a smaller
  share \<open>s\<close> has affinity \<open>2 s < 1\<close>.
\<close>

theorem category_affinity_formula:
  assumes "db_get_user_category_preferences q = counts" and "counts \<noteq> []"
    and "(c, n) \<in> set counts"
  shows "0 < sum_list (map snd counts) \<and>
         map_of (get_user_category_preferences (Inr counts)) c =
           Some (min (real_of_int n / real_of_int (sum_list (map snd counts)) * 2) 1.0) \<and>
         (sum_list (map snd counts) \<le> 2 * n \<longrightarrow>
            map_of (get_user_category_preferences (Inr counts)) c = Some 1.0) \<and>
         (2 * n < sum_list (map snd counts) \<longrightarrow>
            map_of (get_user_category_preferences (Inr counts)) c =
              Some (2 * (real_of_int n / real_of_int (sum_list (map snd counts)))) \<and>
            2 * (real_of_int n / real_of_int (sum_list (map snd counts))) < 1)"
proof -
  let ?t = "sum_list (map snd counts)"
  from db_category_counts_invariant [of q] assms(1)
  have d: "distinct (map fst counts)" and p: "\<forall>p\<in>set counts. 0 < snd p" by auto
  from p have "\<forall>n\<in>set (map snd counts). 0 < n" by auto
  with assms(2) have tot: "0 < ?t"
    by (intro sum_list_pos_int) auto
  then have "?t \<noteq> 0" by simp
  from category_preferences_lookup [OF d this assms(3)]
  have f: "map_of (get_user_category_preferences (Inr counts)) c =
           Some (min (real_of_int n / real_of_int ?t * 2) 1.0)" .
  have rt: "0 < real_of_int ?t" using tot by simp
  have sat: "min (real_of_int n / real_of_int ?t * 2) 1.0 = 1.0" if "?t \<le> 2 * n"
  proof -
    from that have "real_of_int ?t \<le> real_of_int n * 2" by linarith
    then have "1 \<le> real_of_int n * 2 / real_of_int ?t" using rt by (simp add: le_divide_eq)
    then show ?thesis by (simp add: mult.commute)
  qed
  have lin: "min (real_of_int n / real_of_int ?t * 2) 1.0 = 2 * (real_of_int n / real_of_int ?t)
             \<and> 2 * (real_of_int n / real_of_int ?t) < 1" if "2 * n < ?t"
  proof -
    from that have "real_of_int n * 2 < real_of_int ?t" by linarith
    then have "real_of_int n * 2 / real_of_int ?t < 1" using rt by (simp add: divide_less_eq)
    then show ?thesis by (simp add: mult.commute)
  qed
  from tot f sat lin show ?thesis by simp
qed

theorem category_affinity_formula_witness:
  "db_get_user_category_preferences (Inr sample_rows)
     = [(VStr ''technology'', 3), (VStr ''business'', 1)] \<and>
   map_of (get_user_category_preferences
            (Inr [(VStr ''technology'', 3), (VStr ''business'', 1)])) (VStr ''business'')
     = Some 0.5 \<and>
   map_of (get_user_category_preferences
            (Inr [(VStr ''technology'', 3), (VStr ''business'', 1)])) (VStr ''technology'')
     = Some 1.0"
proof -
  have h1: "db_get_user_category_preferences (Inr sample_rows)
     = [(VStr ''technology'', 3), (VStr ''business'', 1)]"
    by (simp add: db_get_user_category_preferences_def sample_rows_def py_get_def bump_count_def)
  have h2: "[(VStr ''technology'', 3), (VStr ''business'', 1::int)] \<noteq> []" by simp
  have b: "(VStr ''business'', 1) \<in> set [(VStr ''technology'', 3), (VStr ''business'', 1::int)]"
    by simp
  have t: "(VStr ''technology'', 3) \<in> set [(VStr ''technology'', 3), (VStr ''business'', 1::int)]"
    by simp
  from category_affinity_formula [OF h1 h2 b] category_affinity_formula [OF h1 h2 t] h1
  show ?thesis by simp
qed

text \<open>
  A single interaction gives its category the affinity 1.0 at once.
\<close>

theorem single_interaction_saturates_counterexample:
  "db_get_user_category_preferences (Inr single_row) = [(VStr ''technology'', 1)] \<and>
   map_of (get_user_category_preferences (Inr (db_get_user_category_preferences (Inr single_row))))
     (VStr ''technology'') = Some 1.0"
  by (simp add: db_get_user_category_preferences_def single_row_def py_get_def bump_count_def
      get_user_category_preferences_def)

end
